theory Spec2Isabelle
  imports Complex_Main
begin

section \<open>Conventions of the embedding\<close>

text \<open>
  The program is Python. Its floating-point quantities (capital fractions, leverages,
  prices, timestamps in seconds) are modelled as real numbers, so every arithmetic
  statement below is the exact one that the code approximates within floating tolerance.
  A Python dict whose keys are read with \<^verbatim>\<open>d.get(key, default)\<close> is a record of
  optional fields; \<^verbatim>\<open>d[key]\<close> on a missing key raises \<^verbatim>\<open>KeyError\<close>. Exceptions are
  values of \<open>py_error\<close>, and a function that may raise returns \<open>py_error + 'a\<close>.
  Console output and network requests are left out, and of file output only the state
  file of the recovery is kept; the values that come from the network (prices, sentiment,
  the advisor's answer, what the exchange answers to the trading client) are parameters.
\<close>

datatype py_error = AttributeError | KeyError | TypeError | ValueError | ZeroDivisionError

definition get_or :: "'a option \<Rightarrow> 'a \<Rightarrow> 'a" where
  "get_or v d = (case v of None \<Rightarrow> d | Some x \<Rightarrow> x)"

definition subscript :: "'a option \<Rightarrow> py_error + 'a" where
  "subscript v = (case v of None \<Rightarrow> Inl KeyError | Some x \<Rightarrow> Inr x)"

section \<open>Sentiment multiplier (live\_trading\_bot.py)\<close>

record sentiment_dict =
  fear_greed :: "real option"
  funding_rate :: "real option"
  ls_ratio :: "real option"

text \<open>The last statement of \<open>calculate_sentiment_multiplier\<close>: the cap between 0.5 and 1.5.\<close>

definition cap_multiplier :: "real \<Rightarrow> real" where
  "cap_multiplier final_multiplier = max 0.5 (min 1.5 final_multiplier)"

definition calculate_sentiment_multiplier :: "sentiment_dict \<Rightarrow> real" where
  "calculate_sentiment_multiplier sentiment =
     (let fg = get_or (fear_greed sentiment) 50;
          m_fg = (if fg < 25 then 1.3 else if fg < 40 then 1.1
                  else if fg > 75 then 0.6 else 1.0);
          fr = get_or (funding_rate sentiment) 0;
          m_fr = (if fr < - 0.01 then 1.3 else if fr < 0 then 1.1
                  else if fr > 0.05 then 0.5 else if fr > 0.02 then 0.8 else 1.0);
          ls = get_or (ls_ratio sentiment) 1.0;
          m_ls = (if ls > 2.0 then 0.8 else if ls > 1.5 then 1.0
                  else if ls < 0.8 then 1.2 else 1.0);
          multipliers = [m_fg, m_fr, m_ls];
          final_multiplier = sum_list multipliers / real (length multipliers)
      in cap_multiplier final_multiplier)"

section \<open>Exposure limiter (live\_trading\_bot.py)\<close>

definition MAX_NOTIONAL_EXPOSURE :: real where
  "MAX_NOTIONAL_EXPOSURE = 5.0"

definition MAX_CAPITAL_USAGE_bot :: real where
  "MAX_CAPITAL_USAGE_bot = 1.35"

text \<open>
  \<open>check_exposure_limits\<close> reads two attributes of the bot, \<open>total_position_size\<close>
  and \<open>current_leverage\<close>; they are its first two arguments here.
\<close>

definition current_notional_of :: "real \<Rightarrow> real \<Rightarrow> real" where
  "current_notional_of total_position_size current_leverage =
     total_position_size * (if current_leverage > 0 then current_leverage else 1)"

definition check_exposure_limits :: "real \<Rightarrow> real \<Rightarrow> real \<Rightarrow> real \<Rightarrow> real" where
  "check_exposure_limits total_position_size current_leverage desired_size leverage =
     (let current_capital_used = total_position_size;
          current_notional = current_notional_of current_capital_used current_leverage;
          total_capital = current_capital_used + desired_size;
          allowed_capital = MAX_CAPITAL_USAGE_bot - current_capital_used
      in if total_capital > MAX_CAPITAL_USAGE_bot \<and> allowed_capital \<le> 0 then 0
         else
           let desired_size' =
                 (if total_capital > MAX_CAPITAL_USAGE_bot then allowed_capital
                  else desired_size);
               new_notional = desired_size' * leverage;
               total_notional = current_notional + new_notional;
               allowed_notional = MAX_NOTIONAL_EXPOSURE - current_notional
           in if total_notional > MAX_NOTIONAL_EXPOSURE
              then (if allowed_notional \<le> 0 then 0 else allowed_notional / leverage)
              else desired_size')"

section \<open>Dictionaries shared by the components\<close>

text \<open>
  The position dict is built in \<open>enter_position\<close>, in \<open>recover_position\<close>, in the
  logger and in the validator's own test; the record has every key that any of them
  writes or reads. The empty dict, which Python treats as false, is the record with
  every field \<open>None\<close>. The key \<^verbatim>\<open>size\<close> is the field \<open>size_p\<close>. The entry time
  is an ISO string in the logger and after a recovery, and a \<^verbatim>\<open>datetime\<close> object
  (which \<^verbatim>\<open>json.dump\<close> cannot write) in the dict that \<open>enter_position\<close> builds.
\<close>

datatype time_value = Iso string | Datetime string

record position_dict =
  status :: "string option"
  entry_price :: "real option"
  average_price :: "real option"
  size_p :: "real option"
  leverage :: "real option"
  entry_time :: "time_value option"
  scale_in_count_p :: "nat option"
  capital_used :: "real option"

definition empty_position :: position_dict where
  "empty_position = \<lparr>status = None, entry_price = None, average_price = None,
     size_p = None, leverage = None, entry_time = None, scale_in_count_p = None,
     capital_used = None\<rparr>"

text \<open>
  A decision of the advisor: the keys \<^verbatim>\<open>decision\<close> (here \<open>action\<close>),
  \<^verbatim>\<open>size_or_amount\<close>, \<^verbatim>\<open>reasoning\<close> and \<^verbatim>\<open>confidence\<close>.
\<close>

record decision_dict =
  action :: "string option"
  size_or_amount :: "real option"
  reasoning :: "string option"
  confidence :: "real option"

definition empty_decision :: decision_dict where
  "empty_decision = \<lparr>action = None, size_or_amount = None, reasoning = None,
     confidence = None\<rparr>"

section \<open>Safety validator (safety\_validator.py)\<close>

definition MIN_LIQUID_RESERVE :: real where "MIN_LIQUID_RESERVE = 0.06"
definition MAX_CAPITAL_USAGE :: real where "MAX_CAPITAL_USAGE = 0.94"
definition MAX_LEVERAGE :: real where "MAX_LEVERAGE = 5.0"
definition MAX_TOTAL_NOTIONAL :: real where "MAX_TOTAL_NOTIONAL = 5.0"
definition MIN_POSITION_SIZE :: real where "MIN_POSITION_SIZE = 0.25"
definition MAX_POSITION_SIZE :: real where "MAX_POSITION_SIZE = 0.75"
definition MAX_ADJUSTMENTS_PER_DAY :: nat where "MAX_ADJUSTMENTS_PER_DAY = 3"
definition MAX_ADD_PER_REVIEW :: real where "MAX_ADD_PER_REVIEW = 0.05"

text \<open>
  The validator's attributes. \<open>adjustment_log\<close> maps a calendar date (an ISO string)
  to the adjustments logged on that day; \<open>last_adjustment_time\<close> is in seconds.
\<close>

record adjustment =
  adj_time :: string
  adj_action :: string
  adj_amount :: real

record validator =
  adjustment_log :: "string \<rightharpoonup> adjustment list"
  last_adjustment_time :: real

definition new_validator :: validator where
  "new_validator = \<lparr>adjustment_log = Map.empty, last_adjustment_time = 0\<rparr>"

text \<open>
  The second component of a verdict stands for the reason string; the numbers that the
  source formats into some of the strings are not part of it.
\<close>

datatype reason =
    Size_below_minimum | Capped_at_maximum | No_capital_available
  | Reduced_for_liquid_reserve | Already_at_notional_limit | Reduced_to_fit_notional
  | Leverage_exceeds_maximum | Trade_approved
  | Already_made_adjustments_today | Must_wait | Capped_at_max_add
  | Would_exceed_notional_limit | Cannot_reduce_while_in_loss | Capped_at_max_reduce
  | Adjustment_approved | Exit_outside_range | Exit_approved

type_synonym verdict = "bool \<times> reason \<times> decision_dict option"

definition calculate_current_notional :: "position_dict option \<Rightarrow> real" where
  "calculate_current_notional position =
     (case position of
        None \<Rightarrow> 0.0
      | Some p \<Rightarrow>
          if p = empty_position \<or> get_or (size_p p) 0 = 0 then 0.0
          else let lev = get_or (leverage p) 1;
                   capital_pct = get_or (capital_used p) 0.80
               in capital_pct * lev)"

text \<open>
  \<^verbatim>\<open>not position.get('average_price')\<close> holds when the key is missing and when the
  price is zero.
\<close>

definition calculate_roi :: "position_dict option \<Rightarrow> real \<Rightarrow> real" where
  "calculate_roi position current_price =
     (case position of
        None \<Rightarrow> 0
      | Some p \<Rightarrow>
          if p = empty_position then 0
          else (case average_price p of
                  None \<Rightarrow> 0
                | Some avg_entry \<Rightarrow>
                    if avg_entry = 0 then 0
                    else let lev = get_or (leverage p) 1;
                             price_change = (current_price - avg_entry) / avg_entry;
                             roi = price_change * lev
                         in roi * 100))"

text \<open>
  Every method of the validator takes the validator and returns it next to its result,
  so that what a call does to \<open>adjustment_log\<close> and \<open>last_adjustment_time\<close> is part of
  the model. \<open>validate_entry\<close> raises \<^verbatim>\<open>KeyError\<close> when a non-empty position has no
  key \<^verbatim>\<open>size\<close>. Its \<open>account_info\<close> argument is never read and is left out.
\<close>

definition validate_entry ::
  "validator \<Rightarrow> decision_dict \<Rightarrow> position_dict option \<Rightarrow> (py_error + verdict) \<times> validator"
where
  "validate_entry self decision current_position =
     (let sz = get_or (size_or_amount decision) 0;
          lev = (3::real)
      in if sz < MIN_POSITION_SIZE then (Inr (False, Size_below_minimum, None), self)
         else if sz > MAX_POSITION_SIZE
         then (Inr (True, Capped_at_maximum,
                    Some (decision\<lparr>size_or_amount := Some MAX_POSITION_SIZE\<rparr>)), self)
         else
           (case (case current_position of
                    None \<Rightarrow> Inr 0
                  | Some p \<Rightarrow> if p = empty_position then Inr 0 else subscript (size_p p)) of
              Inl e \<Rightarrow> (Inl e, self)
            | Inr current_deployed \<Rightarrow>
                let total_deployed = current_deployed + sz in
                if total_deployed > MAX_CAPITAL_USAGE
                then (let max_allowed = MAX_CAPITAL_USAGE - current_deployed in
                      if max_allowed \<le> 0 then (Inr (False, No_capital_available, None), self)
                      else (Inr (True, Reduced_for_liquid_reserve,
                                 Some (decision\<lparr>size_or_amount := Some max_allowed\<rparr>)), self))
                else
                  let current_notional = calculate_current_notional current_position;
                      new_notional = sz * lev;
                      total_notional = current_notional + new_notional
                  in if total_notional > MAX_TOTAL_NOTIONAL
                     then (let allowed_notional = MAX_TOTAL_NOTIONAL - current_notional in
                           if allowed_notional \<le> 0
                           then (Inr (False, Already_at_notional_limit, None), self)
                           else (Inr (True, Reduced_to_fit_notional,
                                      Some (decision\<lparr>size_or_amount :=
                                              Some (allowed_notional / lev)\<rparr>)), self))
                     else if lev > MAX_LEVERAGE
                     then (Inr (False, Leverage_exceeds_maximum, None), self)
                     else (Inr (True, Trade_approved, Some decision), self)))"

text \<open>
  \<open>validate_adjustment\<close> reads the clock twice: \<open>today\<close> is \<^verbatim>\<open>date.today().isoformat()\<close>
  and \<open>now\<close> is \<^verbatim>\<open>time.time()\<close>.
\<close>

definition validate_adjustment ::
  "validator \<Rightarrow> string \<Rightarrow> real \<Rightarrow> decision_dict \<Rightarrow> position_dict \<Rightarrow> real
     \<Rightarrow> verdict \<times> validator"
where
  "validate_adjustment self today now decision current_position current_price =
     (let act = action decision;
          amount = get_or (size_or_amount decision) 0;
          todays_adjustments = get_or (adjustment_log self today) [];
          time_since_last = now - last_adjustment_time self
      in if length todays_adjustments \<ge> MAX_ADJUSTMENTS_PER_DAY
         then ((False, Already_made_adjustments_today, None), self)
         else if time_since_last < 1800 \<and> last_adjustment_time self > 0
         then ((False, Must_wait, None), self)
         else if act = Some ''ADD''
         then (if amount > MAX_ADD_PER_REVIEW
               then ((True, Capped_at_max_add,
                      Some (decision\<lparr>size_or_amount := Some MAX_ADD_PER_REVIEW\<rparr>)), self)
               else
                 let new_notional = amount * get_or (leverage current_position) 4;
                     current_notional = calculate_current_notional (Some current_position)
                 in if current_notional + new_notional > MAX_TOTAL_NOTIONAL
                    then ((False, Would_exceed_notional_limit, None), self)
                    else ((True, Adjustment_approved, Some decision), self))
         else if act = Some ''REDUCE''
         then (let roi = calculate_roi (Some current_position) current_price
               in if roi < 0 then ((False, Cannot_reduce_while_in_loss, None), self)
                  else if amount > 0.20
                  then ((True, Capped_at_max_reduce,
                         Some (decision\<lparr>size_or_amount := Some 0.20\<rparr>)), self)
                  else ((True, Adjustment_approved, Some decision), self))
         else ((True, Adjustment_approved, Some decision), self))"

text \<open>\<open>log_adjustment\<close>: \<open>now_iso\<close> is \<^verbatim>\<open>datetime.now().isoformat()\<close>.\<close>

definition log_adjustment ::
  "validator \<Rightarrow> string \<Rightarrow> string \<Rightarrow> real \<Rightarrow> string \<Rightarrow> real \<Rightarrow> validator"
where
  "log_adjustment self today now_iso now act amount =
     (let log1 = (if today \<in> dom (adjustment_log self) then adjustment_log self
                  else (adjustment_log self)(today \<mapsto> []));
          log2 = log1(today \<mapsto> get_or (log1 today) []
                   @ [\<lparr>adj_time = now_iso, adj_action = act, adj_amount = amount\<rparr>])
      in self\<lparr>adjustment_log := log2, last_adjustment_time := now\<rparr>)"

definition validate_exit ::
  "validator \<Rightarrow> decision_dict \<Rightarrow> position_dict \<Rightarrow> verdict \<times> validator"
where
  "validate_exit self decision current_position =
     (let exit_pct = get_or (size_or_amount decision) 0
      in if exit_pct < 0.25 \<or> exit_pct > 1.0
         then ((False, Exit_outside_range, None), self)
         else ((True, Exit_approved, Some decision), self))"

section \<open>Decision logger (trading\_decision\_logger.py)\<close>

text \<open>
  A logged decision, by its action kind, with the numeric keys of the dict; the logger
  takes sizes in percent. The timestamp, the reasoning and the details string are left
  out, as are the three log files.
\<close>

datatype log_record =
    ENTRY real real real
  | SCALE_IN real real real real real real real
  | RECOVERY real real

text \<open>
  The arguments of \<open>ENTRY\<close> are price, size and leverage; those of \<open>SCALE_IN\<close> are
  price, added size, new total size, new leverage, deviation from entry, old average and
  new average; those of \<open>RECOVERY\<close> are the size and the average price.
\<close>

record decision_logger =
  decisions :: "log_record list"
  current_position :: "position_dict option"

definition new_logger :: "log_record list \<Rightarrow> decision_logger" where
  "new_logger existing = \<lparr>decisions = existing, current_position = None\<rparr>"

text \<open>
  \<open>update_summary\<close> rewrites the summary file; of that only the subscripts of the
  mirror are kept, which raise \<^verbatim>\<open>KeyError\<close> when the mirror is a non-empty dict
  without one of the keys \<^verbatim>\<open>status\<close>, \<^verbatim>\<open>size\<close>, \<^verbatim>\<open>leverage\<close> and
  \<^verbatim>\<open>entry_price\<close>.
\<close>

definition update_summary :: "decision_logger \<Rightarrow> py_error + unit" where
  "update_summary self =
     (case current_position self of
        None \<Rightarrow> Inr ()
      | Some cp \<Rightarrow>
          if cp = empty_position then Inr ()
          else if status cp = None \<or> size_p cp = None \<or> leverage cp = None
                  \<or> entry_price cp = None
          then Inl KeyError
          else Inr ())"

text \<open>
  \<open>log_entry_decision\<close> writes a mirror with all of these keys, so that its call of
  \<open>update_summary\<close> returns.
\<close>

definition log_entry_decision ::
  "decision_logger \<Rightarrow> string \<Rightarrow> real \<Rightarrow> real \<Rightarrow> real \<Rightarrow> log_record \<times> decision_logger"
where
  "log_entry_decision self now_iso price sz lev =
     (let decision = ENTRY price sz lev
      in (decision,
          self\<lparr>current_position := Some (empty_position\<lparr>status := Some ''OPEN'',
                  entry_price := Some price, average_price := Some price,
                  size_p := Some sz, leverage := Some lev,
                  entry_time := Some (Iso now_iso)\<rparr>),
               decisions := decisions self @ [decision]\<rparr>))"

text \<open>
  \<open>log_scale_decision\<close> subscripts \<open>current_position\<close>: \<^verbatim>\<open>TypeError\<close> when it is
  \<^verbatim>\<open>None\<close>, \<^verbatim>\<open>KeyError\<close> when a key is missing, \<^verbatim>\<open>ZeroDivisionError\<close> when the new
  size is zero; these are raised before the logger is changed. The call of
  \<open>update_summary\<close> at its end raises after the logger is changed. The logger is
  returned in every case.
\<close>

definition log_scale_decision ::
  "decision_logger \<Rightarrow> real \<Rightarrow> real \<Rightarrow> real \<Rightarrow> real
     \<Rightarrow> (py_error + log_record) \<times> decision_logger"
where
  "log_scale_decision self price add_size new_leverage deviation =
     (case current_position self of
        None \<Rightarrow> (Inl TypeError, self)
      | Some cp \<Rightarrow>
          (case (average_price cp, size_p cp) of
             (Some old_avg, Some old_size) \<Rightarrow>
               let new_size = old_size + add_size in
               if new_size = 0 then (Inl ZeroDivisionError, self)
               else
                 let new_avg = (old_size * old_avg + add_size * price) / new_size;
                     decision = SCALE_IN price add_size new_size new_leverage deviation
                                  old_avg new_avg;
                     self' = self\<lparr>current_position := Some (cp\<lparr>size_p := Some new_size,
                                 average_price := Some new_avg,
                                 leverage := Some new_leverage\<rparr>),
                              decisions := decisions self @ [decision]\<rparr>
                 in (case update_summary self' of
                       Inl e \<Rightarrow> (Inl e, self')
                     | Inr u \<Rightarrow> (Inr decision, self'))
           | _ \<Rightarrow> (Inl KeyError, self)))"

section \<open>Position recovery (position\_recovery.py)\<close>

text \<open>The dict that the trading client returns for a live position.\<close>

record live_position =
  amount :: real
  entry_price_l :: real
  pnl :: real
  leverage_l :: "real option"

text \<open>The JSON object of the state file, as \<open>save_position_state\<close> writes it.\<close>

record saved_state =
  timestamp_s :: "string option"
  position_s :: "position_dict option"
  last_entry_price_s :: "real option"
  total_position_size_s :: "real option"
  current_leverage_s :: "real option"
  scale_in_count_s :: "nat option"

definition empty_saved_state :: saved_state where
  "empty_saved_state = \<lparr>timestamp_s = None, position_s = None, last_entry_price_s = None,
     total_position_size_s = None, current_leverage_s = None, scale_in_count_s = None\<rparr>"

datatype state_file = No_file | Unreadable_file | State_file saved_state

text \<open>
  \<open>save_position_state\<close> opens the file for writing and dumps the state as JSON. A
  \<^verbatim>\<open>datetime\<close> object among the values makes \<^verbatim>\<open>json.dump\<close> raise \<^verbatim>\<open>TypeError\<close>
  after the file has been truncated and partly written, which leaves a file that does
  not parse.
\<close>

definition save_position_state ::
  "string \<Rightarrow> position_dict \<Rightarrow> (py_error + unit) \<times> state_file"
where
  "save_position_state now_iso position_data =
     (case entry_time position_data of
        Some (Datetime t) \<Rightarrow> (Inl TypeError, Unreadable_file)
      | _ \<Rightarrow>
          (Inr (),
           State_file \<lparr>timestamp_s = Some now_iso, position_s = Some position_data,
             last_entry_price_s = entry_price position_data,
             total_position_size_s = size_p position_data,
             current_leverage_s = leverage position_data,
             scale_in_count_s = Some (get_or (scale_in_count_p position_data) 0)\<rparr>))"

text \<open>
  \<open>recover_position\<close>: \<open>live\<close> is what the exchange reports, \<open>file\<close> the state file on
  disk. The result is the returned triple and the state file left on disk. A file that
  exists but does not parse leaves \<open>saved_state\<close> at \<^verbatim>\<open>None\<close>; a file that parses
  stays loaded even when printing its timestamp fails, and building the position then
  raises \<^verbatim>\<open>KeyError\<close> on the missing \<^verbatim>\<open>timestamp\<close>. \<open>saved\<close> is the loaded
  state when Python treats it as true, that is, when it is not the empty object.
\<close>

definition recover_position ::
  "live_position option \<Rightarrow> state_file \<Rightarrow> string
     \<Rightarrow> (py_error + bool \<times> position_dict option \<times> real option) \<times> state_file"
where
  "recover_position live file now_iso =
     (case live of
        None \<Rightarrow> (Inr (False, None, None), No_file)
      | Some live_pos \<Rightarrow>
          let saved = (case file of
                         State_file ss \<Rightarrow> if ss = empty_saved_state then None else Some ss
                       | _ \<Rightarrow> None)
          in (case (case saved of None \<Rightarrow> Inr now_iso
                                | Some ss \<Rightarrow> subscript (timestamp_s ss)) of
               Inl e \<Rightarrow> (Inl e, file)
             | Inr t \<Rightarrow>
                 let recovered = empty_position\<lparr>
                       entry_price := Some (entry_price_l live_pos),
                       average_price := Some (entry_price_l live_pos),
                       size_p := Some (amount live_pos),
                       leverage := Some (get_or (leverage_l live_pos) 3),
                       entry_time := Some (Iso t),
                       scale_in_count_p :=
                         Some (case saved of None \<Rightarrow> 0
                                           | Some ss \<Rightarrow> get_or (scale_in_count_s ss) 0)\<rparr>;
                     recovered' =
                       (case saved of
                          None \<Rightarrow> recovered
                        | Some ss \<Rightarrow>
                            (case position_s ss of
                               None \<Rightarrow> recovered
                             | Some pd \<Rightarrow>
                                 if pd = empty_position then recovered
                                 else recovered\<lparr>average_price :=
                                        Some (get_or (average_price pd)
                                                (entry_price_l live_pos))\<rparr>));
                     last_entry = (case saved of
                                     None \<Rightarrow> Some (entry_price_l live_pos)
                                   | Some ss \<Rightarrow> last_entry_price_s ss)
                 in (Inr (True, Some recovered', last_entry), file)))"

text \<open>
  \<open>log_recovery\<close> first replaces the logger's \<open>current_position\<close>, then appends the
  recovery record.
\<close>

definition log_recovery ::
  "decision_logger \<Rightarrow> string \<Rightarrow> position_dict \<Rightarrow> py_error + decision_logger"
where
  "log_recovery lg now_iso position_data =
     (case (entry_price position_data, average_price position_data,
            size_p position_data, leverage position_data) of
        (Some ep, Some ap, Some sz, Some lev) \<Rightarrow>
          Inr (lg\<lparr>current_position := Some (empty_position\<lparr>status := Some ''OPEN'',
                     entry_price := Some ep, average_price := Some ap,
                     size_p := Some sz, leverage := Some lev,
                     entry_time := Some (get_or (entry_time position_data)
                                           (Iso now_iso))\<rparr>),
                   decisions := decisions lg @ [RECOVERY sz ap]\<rparr>)
      | _ \<Rightarrow> Inl KeyError)"

section \<open>Trading configuration (config/trading\_config.py)\<close>

definition BASE_POSITION_SIZE :: real where "BASE_POSITION_SIZE = 0.35"

definition LEVERAGE_base :: real where "LEVERAGE_base = 3"

text \<open>
  The entries \<^verbatim>\<open>scale_in_1\<close> to \<^verbatim>\<open>scale_in_4\<close> of the \<^verbatim>\<open>LEVERAGE\<close> table, keyed by
  the number in the key.
\<close>

definition LEVERAGE_scale_in :: "(nat \<times> real) list" where
  "LEVERAGE_scale_in = [(1, 3), (2, 4), (3, 5), (4, 5)]"

record scale_level =
  deviation :: real
  add :: real

definition SCALE_LEVELS :: "scale_level list" where
  "SCALE_LEVELS = [\<lparr>deviation = - 0.01, add = 0.20\<rparr>, \<lparr>deviation = - 0.02, add = 0.25\<rparr>,
                   \<lparr>deviation = - 0.04, add = 0.25\<rparr>, \<lparr>deviation = - 0.06, add = 0.30\<rparr>]"

section \<open>Trading client (aster\_trading\_client.py)\<close>

text \<open>
  The client keeps its own record of the position: \<^verbatim>\<open>None\<close> when it is created, a
  dict with the entry price, the amount in BTC and the leverage once
  \<open>enter_long_position\<close> has placed an order. The list of orders is left out.
\<close>

record client_position =
  entry_price_c :: real
  amount_c :: real
  leverage_c :: real

record trading_client =
  position_c :: "client_position option"

definition new_client :: trading_client where
  "new_client = \<lparr>position_c = None\<rparr>"

text \<open>
  What the requests of one operation of the client come to: an exception that leaves
  the operation, no order (the account request failed, the amount rounded to zero, or
  the order request failed), or an order for an amount in BTC with the average price
  that the exchange reports. The client computes the amount from the account value that
  the exchange reports, the percentage, the leverage and the price, rounded to three
  decimals; here the amount is part of the answer.
\<close>

datatype exchange_answer = Raises py_error | No_order | Order real real

definition enter_long_position ::
  "trading_client \<Rightarrow> real \<Rightarrow> real \<Rightarrow> real \<Rightarrow> exchange_answer
     \<Rightarrow> (py_error + bool) \<times> trading_client"
where
  "enter_long_position self percentage lev current_price answer =
     (case answer of
        Raises e \<Rightarrow> (Inl e, self)
      | No_order \<Rightarrow> (Inr False, self)
      | Order btc_amount avg_price \<Rightarrow>
          if btc_amount > 0
          then (Inr True,
                self\<lparr>position_c := Some \<lparr>entry_price_c = avg_price, amount_c = btc_amount,
                                         leverage_c = lev\<rparr>\<rparr>)
          else (Inr False, self))"

text \<open>
  \<open>scale_in_position\<close> begins with \<^verbatim>\<open>self.position.get('leverage')\<close>, which raises
  \<^verbatim>\<open>AttributeError\<close> when the client has no position, before any request is made.
\<close>

definition scale_in_position ::
  "trading_client \<Rightarrow> real \<Rightarrow> real \<Rightarrow> real \<Rightarrow> exchange_answer
     \<Rightarrow> (py_error + bool) \<times> trading_client"
where
  "scale_in_position self add_percentage new_leverage current_price answer =
     (case position_c self of
        None \<Rightarrow> (Inl AttributeError, self)
      | Some pos \<Rightarrow>
          (case answer of
             Raises e \<Rightarrow> (Inl e, self)
           | No_order \<Rightarrow> (Inr False, self)
           | Order btc_amount avg_price \<Rightarrow>
               if btc_amount > 0
               then (let old_amount = amount_c pos;
                         old_price = entry_price_c pos;
                         new_amount = old_amount + btc_amount
                     in if new_amount = 0 then (Inl ZeroDivisionError, self)
                        else
                          let new_price = (old_amount * old_price
                                            + btc_amount * current_price) / new_amount
                          in (Inr True,
                              self\<lparr>position_c := Some (pos\<lparr>amount_c := new_amount,
                                      entry_price_c := new_price,
                                      leverage_c := new_leverage\<rparr>)\<rparr>))
               else (Inr False, self)))"

section \<open>The bot (live\_trading\_bot.py)\<close>

text \<open>
  The attributes of the bot that entries and scale-ins read or write, with its logger,
  its validator and its trading client. What the exchange answers to the client is the
  parameter \<open>answer\<close> of each operation.
\<close>

record bot =
  shadow_mode :: bool
  position :: "position_dict option"
  last_entry_price :: "real option"
  total_position_size :: real
  current_leverage :: real
  scale_in_count :: nat
  eager_to_enter :: bool
  bounce_detected :: bool
  logger :: decision_logger
  safety :: validator
  trading_client :: trading_client

text \<open>The bot as the constructor leaves it when the exchange reports no position.\<close>

definition new_bot :: "bool \<Rightarrow> log_record list \<Rightarrow> bot" where
  "new_bot shadow existing =
     \<lparr>shadow_mode = shadow, position = None, last_entry_price = None,
      total_position_size = 0, current_leverage = 0, scale_in_count = 0,
      eager_to_enter = True, bounce_detected = True,
      logger = new_logger existing, safety = new_validator,
      trading_client = new_client\<rparr>"

text \<open>
  The recovery part of the constructor: \<open>recover_position\<close>, which asks a client of
  its own, then the restored attributes, then \<open>log_recovery\<close>. The bot's trading
  client is not touched.
\<close>

definition init_bot ::
  "bool \<Rightarrow> log_record list \<Rightarrow> live_position option \<Rightarrow> state_file \<Rightarrow> string
     \<Rightarrow> (py_error + bot) \<times> state_file"
where
  "init_bot shadow existing live file now_iso =
     (let self = new_bot shadow existing in
      case recover_position live file now_iso of
        (Inl e, file') \<Rightarrow> (Inl e, file')
      | (Inr (has_position, recovered_position, recovered_last_entry), file') \<Rightarrow>
          if has_position
          then (case recovered_position of
                  None \<Rightarrow> (Inl TypeError, file')
                | Some rp \<Rightarrow>
                    (case (size_p rp, leverage rp) of
                       (Some sz, Some lev) \<Rightarrow>
                         let self' = self\<lparr>position := Some rp,
                               last_entry_price := recovered_last_entry,
                               total_position_size := sz, current_leverage := lev,
                               scale_in_count := get_or (scale_in_count_p rp) 0,
                               eager_to_enter := False, bounce_detected := False\<rparr>
                         in (case log_recovery (logger self') now_iso rp of
                               Inl e \<Rightarrow> (Inl e, file')
                             | Inr lg \<Rightarrow> (Inr (self'\<lparr>logger := lg\<rparr>), file'))
                     | _ \<Rightarrow> (Inl KeyError, file')))
          else (Inr self, file'))"

text \<open>
  The block of \<open>enter_position\<close> that runs once the order is filled: the logger
  records the entry in percent, then the bot's attributes are set, then the state is
  saved. The third component is what \<open>save_position_state\<close> returns and leaves on
  disk: the entry time of the dict is a \<^verbatim>\<open>datetime\<close> object, so it raises.
\<close>

definition entry_filled ::
  "bot \<Rightarrow> string \<Rightarrow> real \<Rightarrow> real \<Rightarrow> real
     \<Rightarrow> log_record \<times> bot \<times> (py_error + unit) \<times> state_file"
where
  "entry_filled self now_iso current_price final_size lev =
     (let (decision, lg) = log_entry_decision (logger self) now_iso current_price
                             (final_size * 100) lev;
          pos = empty_position\<lparr>entry_price := Some current_price,
                  average_price := Some current_price, size_p := Some final_size,
                  leverage := Some lev, entry_time := Some (Datetime now_iso)\<rparr>
      in (decision,
          self\<lparr>logger := lg, position := Some pos, last_entry_price := Some current_price,
               total_position_size := final_size, current_leverage := lev,
               scale_in_count := 0, eager_to_enter := False, bounce_detected := False\<rparr>,
          save_position_state now_iso pos))"

text \<open>
  \<open>enter_position\<close>: \<open>claude\<close> is the advisor's answer or the exception of the call,
  in which case the algorithm's proposal is used. The result is the logged decision, or
  \<^verbatim>\<open>None\<close> when nothing was entered, or the exception that leaves the function; the
  bot is returned in every case. The line that prints the sentiment formats the funding
  rate and the long/short ratio as numbers and raises \<^verbatim>\<open>ValueError\<close> when one of them
  is missing. In shadow mode the client is not called. After a filled entry the
  exception of \<open>save_position_state\<close> leaves the function with the bot's attributes
  already set.
\<close>

definition enter_position ::
  "bot \<Rightarrow> string \<Rightarrow> real \<Rightarrow> sentiment_dict \<Rightarrow> py_error + decision_dict \<Rightarrow> exchange_answer
     \<Rightarrow> (py_error + log_record option) \<times> bot"
where
  "enter_position self now_iso current_price sentiment claude answer =
     (let sentiment_multiplier = calculate_sentiment_multiplier sentiment;
          algo_proposed_size = BASE_POSITION_SIZE * sentiment_multiplier;
          lev = LEVERAGE_base;
          claude_decision =
            (case claude of
               Inr d \<Rightarrow> d
             | Inl e \<Rightarrow> empty_decision\<lparr>action := Some ''APPROVE'',
                          size_or_amount := Some algo_proposed_size,
                          reasoning := Some ''Claude unavailable'',
                          confidence := Some 0.5\<rparr>)
      in case action claude_decision of
           None \<Rightarrow> (Inl KeyError, self)
         | Some a \<Rightarrow>
             if a = ''REJECT'' then (Inr None, self)
             else
               let claude_size = get_or (size_or_amount claude_decision) algo_proposed_size
               in (case validate_entry (safety self) claude_decision (position self) of
                    (Inl e, v) \<Rightarrow> (Inl e, self\<lparr>safety := v\<rparr>)
                  | (Inr (approved, why, adjusted), v) \<Rightarrow>
                      let self1 = self\<lparr>safety := v\<rparr> in
                      if \<not> approved then (Inr None, self1)
                      else
                        (case (case adjusted of
                                 None \<Rightarrow> Inr claude_size
                               | Some adj \<Rightarrow> if adj = empty_decision then Inr claude_size
                                            else subscript (size_or_amount adj)) of
                           Inl e \<Rightarrow> (Inl e, self1)
                         | Inr final_size \<Rightarrow>
                             if funding_rate sentiment = None \<or> ls_ratio sentiment = None
                             then (Inl ValueError, self1)
                             else
                               (case (if shadow_mode self1
                                      then (Inr True, trading_client self1)
                                      else enter_long_position (trading_client self1)
                                             final_size lev current_price answer) of
                                  (Inl e, client) \<Rightarrow>
                                    (Inl e, self1\<lparr>trading_client := client\<rparr>)
                                | (Inr success, client) \<Rightarrow>
                                    let self2 = self1\<lparr>trading_client := client\<rparr> in
                                    if success
                                    then (let (decision, self3, saved, file) =
                                                entry_filled self2 now_iso current_price
                                                  final_size lev
                                          in (case saved of
                                                Inl e \<Rightarrow> (Inl e, self3)
                                              | Inr u \<Rightarrow> (Inr (Some decision), self3)))
                                    else (Inr None, self2)))))"

text \<open>
  The block of \<open>check_scale_in\<close> that runs once the scale-in order is filled:
  \<open>log_scale_decision\<close> with the size and the deviation in percent, then the update
  of the bot's attributes, where \<open>i\<close> is the index of the scale level. An exception of
  the logger leaves the bot's attributes as they were, with the logger as the exception
  left it.
\<close>

definition scale_in_filled ::
  "bot \<Rightarrow> real \<Rightarrow> real \<Rightarrow> real \<Rightarrow> real \<Rightarrow> nat \<Rightarrow> (py_error + log_record) \<times> bot"
where
  "scale_in_filled self current_price add_size new_leverage dev i =
     (case log_scale_decision (logger self) current_price (add_size * 100) new_leverage
             (dev * 100) of
        (Inl e, lg) \<Rightarrow> (Inl e, self\<lparr>logger := lg\<rparr>)
      | (Inr decision, lg) \<Rightarrow>
          let self1 = self\<lparr>logger := lg\<rparr> in
          (case position self1 of
             None \<Rightarrow> (Inl TypeError, self1)
           | Some pos \<Rightarrow>
               (case average_price pos of
                  None \<Rightarrow> (Inl KeyError, self1)
                | Some old_avg \<Rightarrow>
                    let old_size = total_position_size self1;
                        new_size = old_size + add_size
                    in if new_size = 0 then (Inl ZeroDivisionError, self1)
                       else
                         let new_avg = (old_size * old_avg + add_size * current_price)
                                         / new_size
                         in (Inr decision,
                             self1\<lparr>position := Some (pos\<lparr>average_price := Some new_avg\<rparr>),
                                   total_position_size := new_size,
                                   current_leverage := new_leverage,
                                   scale_in_count := i + 1\<rparr>))))"

text \<open>
  The body of the loop of \<open>check_scale_in\<close> for the level \<open>i\<close> whose condition holds.
  The order goes to the client whether or not the bot is in shadow mode.
\<close>

definition scale_in_at ::
  "bot \<Rightarrow> real \<Rightarrow> sentiment_dict \<Rightarrow> exchange_answer \<Rightarrow> real \<Rightarrow> nat \<Rightarrow> scale_level
     \<Rightarrow> (py_error + bool \<times> log_record option) \<times> bot"
where
  "scale_in_at self current_price sentiment answer dev i level =
     (let sentiment_multiplier = calculate_sentiment_multiplier sentiment;
          base_add = add level;
          desired_add = base_add * sentiment_multiplier;
          new_leverage = get_or (map_of LEVERAGE_scale_in (i + 1)) (current_leverage self);
          add_size = check_exposure_limits (total_position_size self) (current_leverage self)
                       desired_add new_leverage
      in if add_size = 0 then (Inr (False, None), self)
         else (case scale_in_position (trading_client self) add_size new_leverage
                      current_price answer of
                 (Inl e, client) \<Rightarrow> (Inl e, self\<lparr>trading_client := client\<rparr>)
               | (Inr success, client) \<Rightarrow>
                   let self1 = self\<lparr>trading_client := client\<rparr> in
                   if success
                   then (case scale_in_filled self1 current_price add_size new_leverage
                                dev i of
                           (Inl e, self') \<Rightarrow> (Inl e, self')
                         | (Inr decision, self') \<Rightarrow> (Inr (True, Some decision), self'))
                   else (Inr (False, None), self1)))"

text \<open>The loop over the enumerated scale levels: the first level that matches returns.\<close>

fun scale_levels_loop ::
  "bot \<Rightarrow> real \<Rightarrow> sentiment_dict \<Rightarrow> exchange_answer \<Rightarrow> real \<Rightarrow> nat \<Rightarrow> scale_level list
     \<Rightarrow> (py_error + bool \<times> log_record option) \<times> bot"
where
  "scale_levels_loop self current_price sentiment answer dev i [] = (Inr (False, None), self)"
| "scale_levels_loop self current_price sentiment answer dev i (level # levels) =
     (if dev \<le> deviation level \<and> i \<ge> scale_in_count self
      then scale_in_at self current_price sentiment answer dev i level
      else scale_levels_loop self current_price sentiment answer dev (i + 1) levels)"

definition check_scale_in ::
  "bot \<Rightarrow> real \<Rightarrow> sentiment_dict \<Rightarrow> exchange_answer
     \<Rightarrow> (py_error + bool \<times> log_record option) \<times> bot"
where
  "check_scale_in self current_price sentiment answer =
     (case position self of
        None \<Rightarrow> (Inr (False, None), self)
      | Some pos \<Rightarrow>
          (case last_entry_price self of
             None \<Rightarrow> (Inl TypeError, self)
           | Some le \<Rightarrow>
               if le = 0 then (Inl ZeroDivisionError, self)
               else scale_levels_loop self current_price sentiment answer
                      ((current_price - le) / le) 0 SCALE_LEVELS))"

section \<open>Sequences of entries and scale-ins\<close>

text \<open>
  One cycle of \<open>run_cycle\<close> in which no exit fires: a flat bot whose entry conditions
  hold calls \<open>enter_position\<close>, a bot with a position calls \<open>check_scale_in\<close>. An
  exception ends the cycle and the bot stays as the exception left it.
\<close>

datatype event =
    Enter string real sentiment_dict "py_error + decision_dict" exchange_answer
  | Scale real sentiment_dict exchange_answer

fun run_cycle :: "bot \<Rightarrow> event \<Rightarrow> bot" where
  "run_cycle self (Enter now_iso current_price sentiment claude answer) =
     (if position self = None
      then snd (enter_position self now_iso current_price sentiment claude answer)
      else self)"
| "run_cycle self (Scale current_price sentiment answer) =
     (if position self = None then self
      else snd (check_scale_in self current_price sentiment answer))"

definition run_cycles :: "bot \<Rightarrow> event list \<Rightarrow> bot" where
  "run_cycles self evs = foldl run_cycle self evs"

text \<open>
  The notional of the fills in the decision log: each logged entry and scale-in adds
  its size, logged in percent, times the leverage it was placed at.
\<close>

fun fill_notional :: "log_record \<Rightarrow> real" where
  "fill_notional (ENTRY price sz lev) = sz / 100 * lev"
| "fill_notional (SCALE_IN price added new_total new_lev dev old_avg new_avg) =
     added / 100 * new_lev"
| "fill_notional (RECOVERY sz avg) = 0"

definition logged_notional :: "log_record list \<Rightarrow> real" where
  "logged_notional ds = sum_list (map fill_notional ds)"

text \<open>
  A run of filled scale-ins, each given by its price, its size, its leverage and the
  deviation that is logged with it; it stops at the first exception.
\<close>

record fill =
  fill_price :: real
  fill_size :: real
  fill_leverage :: real
  fill_deviation :: real

fun scale_ins_filled :: "bot \<Rightarrow> fill list \<Rightarrow> py_error + bot" where
  "scale_ins_filled self [] = Inr self"
| "scale_ins_filled self (f # fs) =
     (case scale_in_filled self (fill_price f) (fill_size f) (fill_leverage f)
             (fill_deviation f) (scale_in_count self) of
        (Inl e, self') \<Rightarrow> Inl e
      | (Inr decision, self') \<Rightarrow> scale_ins_filled self' fs)"

text \<open>
  The capital-weighted average of the specification, over pairs of size and price.
\<close>

definition capital_weighted_average :: "(real \<times> real) list \<Rightarrow> real" where
  "capital_weighted_average sps =
     sum_list (map (\<lambda>(sz, p). sz * p) sps) / sum_list (map fst sps)"

section \<open>Predicates and inputs used in the proofs\<close>

text \<open>
  The leverage in force after \<open>k\<close> scale-ins of the configured plan: the base leverage
  of the entry, then the leverage of the last scale level taken.
\<close>

definition leverage_schedule :: "nat \<Rightarrow> real" where
  "leverage_schedule k =
     (if k = 0 then LEVERAGE_base else get_or (map_of LEVERAGE_scale_in k) 0)"

text \<open>The mirror has the keys that \<open>update_summary\<close> subscripts.\<close>

definition mirror_complete :: "position_dict \<Rightarrow> bool" where
  "mirror_complete cp =
     (status cp \<noteq> None \<and> size_p cp \<noteq> None \<and> leverage cp \<noteq> None
      \<and> entry_price cp \<noteq> None)"

text \<open>
  What holds of the bot while it runs entries and scale-ins from a fresh start: either it
  is flat with an empty decision log, or it has a position, the logger mirrors it, the
  size is within the capital cap, the leverage is the one of the plan, and the notional of
  the logged fills is within the size times the current leverage and within the notional
  cap.
\<close>

definition flat_inv :: "bot \<Rightarrow> bool" where
  "flat_inv b = (position b = None \<and> total_position_size b = 0
                 \<and> decisions (logger b) = [])"

definition open_inv :: "bot \<Rightarrow> bool" where
  "open_inv b =
     (case (position b, current_position (logger b)) of
        (Some pos, Some cp) \<Rightarrow>
          average_price pos \<noteq> None \<and> average_price cp \<noteq> None
          \<and> mirror_complete cp
          \<and> (case size_p cp of None \<Rightarrow> False | Some x \<Rightarrow> 0 < x)
          \<and> 0 < total_position_size b
          \<and> total_position_size b \<le> MAX_CAPITAL_USAGE_bot
          \<and> scale_in_count b \<le> 4
          \<and> current_leverage b = leverage_schedule (scale_in_count b)
          \<and> logged_notional (decisions (logger b))
               \<le> total_position_size b * current_leverage b
          \<and> logged_notional (decisions (logger b)) \<le> MAX_NOTIONAL_EXPOSURE
      | _ \<Rightarrow> False)"


text \<open>
  The bot and the logger's mirror agree on the average price \<open>a\<close> and on the size
  \<open>S\<close>, which the logger holds in percent, and the mirror has its keys.
\<close>

definition synced :: "bot \<Rightarrow> real \<Rightarrow> real \<Rightarrow> bool" where
  "synced b a S =
     (case (position b, current_position (logger b)) of
        (Some pos, Some cp) \<Rightarrow>
          average_price pos = Some a \<and> total_position_size b = S
          \<and> average_price cp = Some a \<and> size_p cp = Some (S * 100)
          \<and> mirror_complete cp
      | _ \<Rightarrow> False)"


text \<open>
  Concrete inputs: a neutral sentiment snapshot (multiplier 1), an advisor's approval of
  an entry of 0.80, a run in which that entry is followed by price drops of 1.5, 2.5 and
  4.5 percent, and the configured plan up to its second scale-in with the advisor
  unavailable. Every order is placed, for the amount in BTC that an account worth 442
  dollars gives.
\<close>

definition neutral_sentiment :: sentiment_dict where
  "neutral_sentiment = \<lparr>fear_greed = Some 50, funding_rate = Some 0.0001, ls_ratio = Some 1.0\<rparr>"

definition approve_80 :: decision_dict where
  "approve_80 = \<lparr>action = Some ''APPROVE'', size_or_amount = Some 0.80, reasoning = None,
                 confidence = None\<rparr>"

definition breach_run :: "event list" where
  "breach_run =
     [Enter ''2025-10-30T12:00:00'' 100000 neutral_sentiment (Inr approve_80)
        (Order 0.010 100000),
      Scale 98500 neutral_sentiment (Order 0.003 98500),
      Scale 97500 neutral_sentiment (Order 0.005 97500),
      Scale 95500 neutral_sentiment (Order 0.001 95500)]"

definition plan_run :: "event list" where
  "plan_run =
     [Enter ''2025-10-30T12:00:00'' 100000 neutral_sentiment (Inl ValueError)
        (Order 0.005 100000),
      Scale 98500 neutral_sentiment (Order 0.003 98500),
      Scale 97500 neutral_sentiment (Order 0.005 97500)]"

section \<open>Sentiment multiplier: the scenario and the range\<close>

text \<open>
  Claim C9, as the specification states it, asks that the multiplier for fear and greed
  10, funding rate -0.05 and long/short ratio 0.5 be exactly 1.5. The function returns
  the mean of 1.3, 1.3 and 1.2 there, which is 19/15, so the stated value is not the one
  computed.
\<close>

theorem sentiment_scenario_is_not_one_and_a_half:
  "calculate_sentiment_multiplier
     \<lparr>fear_greed = Some 10, funding_rate = Some (- 0.05), ls_ratio = Some 0.5\<rparr> \<noteq> 1.5"
  by (simp add: calculate_sentiment_multiplier_def cap_multiplier_def get_or_def Let_def)

text \<open>
  Claim C9, amended: for fear and greed 10, funding rate -0.05 and long/short ratio 0.5
  the multiplier is the unclamped mean 19/15 (about 1.267); for every sentiment snapshot
  the multiplier lies between 0.5 and 1.5; and the capping step maps every value above
  1.5 to exactly 1.5.
\<close>

theorem sentiment_multiplier_scenario_and_range:
  "calculate_sentiment_multiplier
     \<lparr>fear_greed = Some 10, funding_rate = Some (- 0.05), ls_ratio = Some 0.5\<rparr> = 19 / 15
   \<and> (\<forall>s. 0.5 \<le> calculate_sentiment_multiplier s \<and> calculate_sentiment_multiplier s \<le> 1.5)
   \<and> (\<forall>x. x > 1.5 \<longrightarrow> cap_multiplier x = 1.5)"
proof (intro conjI allI impI)
  show "calculate_sentiment_multiplier
          \<lparr>fear_greed = Some 10, funding_rate = Some (- 0.05), ls_ratio = Some 0.5\<rparr> = 19 / 15"
    by (simp add: calculate_sentiment_multiplier_def cap_multiplier_def get_or_def Let_def)
next
  fix s
  show "0.5 \<le> calculate_sentiment_multiplier s"
    by (simp add: calculate_sentiment_multiplier_def cap_multiplier_def Let_def)
  show "calculate_sentiment_multiplier s \<le> 1.5"
    by (simp add: calculate_sentiment_multiplier_def cap_multiplier_def Let_def)
next
  fix x :: real
  assume "x > 1.5"
  then show "cap_multiplier x = 1.5"
    by (simp add: cap_multiplier_def)
qed

theorem sentiment_multiplier_scenario_and_range_witness:
  "(2::real) > 1.5 \<and> cap_multiplier 2 = 1.5
   \<and> calculate_sentiment_multiplier
        \<lparr>fear_greed = Some 80, funding_rate = Some 0.06, ls_ratio = Some 2.5\<rparr> \<le> 1.5"
  using sentiment_multiplier_scenario_and_range by simp

section \<open>Exposure limiter: both caps after the two clips\<close>

text \<open>
  Claim C4: when the desired size breaks the capital cap and the notional cap at once,
  \<open>check_exposure_limits\<close> returns 0 if no headroom is left under one of the caps;
  with the current exposure within both caps it returns a size that keeps the capital
  used within the capital cap and the notional within the notional cap, both at the same
  time; and with headroom under both caps the leverage is positive and the result is the
  capital headroom clipped once more to the notional headroom divided by the leverage,
  that is the smaller of the two, a positive size below the desired one.
\<close>

theorem exposure_limiter_satisfies_both_caps:
  assumes "S + d > MAX_CAPITAL_USAGE_bot"
      and "current_notional_of S L + d * lev > MAX_NOTIONAL_EXPOSURE"
  shows "(MAX_CAPITAL_USAGE_bot - S \<le> 0 \<or> MAX_NOTIONAL_EXPOSURE - current_notional_of S L \<le> 0
            \<longrightarrow> check_exposure_limits S L d lev = 0)
       \<and> (S \<le> MAX_CAPITAL_USAGE_bot \<and> current_notional_of S L \<le> MAX_NOTIONAL_EXPOSURE
            \<longrightarrow> S + check_exposure_limits S L d lev \<le> MAX_CAPITAL_USAGE_bot
              \<and> current_notional_of S L + check_exposure_limits S L d lev * lev
                  \<le> MAX_NOTIONAL_EXPOSURE)
       \<and> (S < MAX_CAPITAL_USAGE_bot \<and> current_notional_of S L < MAX_NOTIONAL_EXPOSURE
            \<longrightarrow> 0 < lev
              \<and> check_exposure_limits S L d lev
                  = min (MAX_CAPITAL_USAGE_bot - S)
                        ((MAX_NOTIONAL_EXPOSURE - current_notional_of S L) / lev)
              \<and> 0 < check_exposure_limits S L d lev
              \<and> check_exposure_limits S L d lev < d)"
proof -
  define cn where "cn = current_notional_of S L"
  define cap where "cap = MAX_CAPITAL_USAGE_bot"
  define mx where "mx = MAX_NOTIONAL_EXPOSURE"
  define r where "r = check_exposure_limits S L d lev"
  have r_eq: "r = (if cap - S \<le> 0 then 0
                   else if cn + (cap - S) * lev > mx
                        then (if mx - cn \<le> 0 then 0 else (mx - cn) / lev)
                        else cap - S)"
    using assms(1) by (simp add: r_def check_exposure_limits_def Let_def cn_def cap_def mx_def)
  have A: "S + d > cap" and B: "cn + d * lev > mx"
    using assms by (simp_all add: cap_def cn_def mx_def)
  have still_over: "cn + (cap - S) * lev > mx" if hp: "0 < cap - S" and nz: "mx - cn \<le> 0"
  proof (cases "lev \<le> 0")
    case True
    have "d > cap - S" using A by simp
    then have "d * lev \<le> (cap - S) * lev" using True
      by (simp add: mult_right_mono_neg)
    then show ?thesis using B by linarith
  next
    case False
    then have "0 < (cap - S) * lev" using hp by simp
    then show ?thesis using nz by linarith
  qed
  have zero: "r = 0" if "cap - S \<le> 0 \<or> mx - cn \<le> 0"
  proof (cases "cap - S \<le> 0")
    case True
    then show ?thesis by (simp add: r_eq)
  next
    case False
    then have nz: "mx - cn \<le> 0" and hp: "0 < cap - S" using that by auto
    have "cn + (cap - S) * lev > mx" using still_over [OF hp nz] .
    then show ?thesis using False nz by (simp add: r_eq)
  qed
  have caps: "S + r \<le> cap \<and> cn + r * lev \<le> mx" if "S \<le> cap" "cn \<le> mx"
  proof (cases "cap - S \<le> 0")
    case True
    then show ?thesis using that by (simp add: r_eq)
  next
    case h: False
    show ?thesis
    proof (cases "cn + (cap - S) * lev > mx")
      case False
      then show ?thesis using h by (simp add: r_eq)
    next
      case over: True
      show ?thesis
      proof (cases "mx - cn \<le> 0")
        case True
        then show ?thesis using h over that by (simp add: r_eq)
      next
        case pos: False
        have levpos: "0 < lev"
        proof (rule ccontr)
          assume "\<not> 0 < lev"
          then have "(cap - S) * lev \<le> 0" using h
            by (simp add: mult_nonneg_nonpos)
          then show False using over pos by linarith
        qed
        have req: "r = (mx - cn) / lev" using h over pos by (simp add: r_eq)
        have "(mx - cn) / lev < cap - S"
          using over levpos by (simp add: pos_divide_less_eq)
        moreover have "(mx - cn) / lev * lev = mx - cn" using levpos by simp
        ultimately show ?thesis unfolding req by linarith
      qed
    qed
  qed
  have clip: "0 < lev \<and> r = min (cap - S) ((mx - cn) / lev) \<and> 0 < r \<and> r < d"
    if room: "S < cap" "cn < mx"
  proof -
    have levpos: "0 < lev"
    proof (rule ccontr)
      assume "\<not> 0 < lev"
      moreover have "0 < d" using A room(1) by linarith
      ultimately have "d * lev \<le> 0" by (simp add: mult_nonneg_nonpos)
      then show False using B room(2) by linarith
    qed
    have hc: "0 < cap - S" and hn: "0 < mx - cn" using room by simp_all
    have quot: "0 < (mx - cn) / lev" using hn levpos by simp
    show ?thesis
    proof (cases "cn + (cap - S) * lev > mx")
      case True
      then have req: "r = (mx - cn) / lev" using hc hn by (simp add: r_eq)
      have less: "(mx - cn) / lev < cap - S"
        using True levpos by (simp add: pos_divide_less_eq)
      have "r = min (cap - S) ((mx - cn) / lev)" using less req by simp
      moreover have "r < d" using less req A by linarith
      ultimately show ?thesis using levpos quot req by simp
    next
      case False
      then have req: "r = cap - S" using hc by (simp add: r_eq)
      have "cap - S \<le> (mx - cn) / lev"
        using False levpos by (simp add: pos_le_divide_eq)
      then have "r = min (cap - S) ((mx - cn) / lev)" using req by simp
      moreover have "r < d" using req A by linarith
      ultimately show ?thesis using levpos hc req by simp
    qed
  qed
  show ?thesis using zero caps clip unfolding r_def cn_def cap_def mx_def by blast
qed

theorem exposure_limiter_satisfies_both_caps_witness:
  "(0.8::real) + 0.9 > MAX_CAPITAL_USAGE_bot
   \<and> current_notional_of 0.8 3 + 0.9 * 5 > MAX_NOTIONAL_EXPOSURE
   \<and> (0.8::real) < MAX_CAPITAL_USAGE_bot
   \<and> current_notional_of 0.8 3 < MAX_NOTIONAL_EXPOSURE
   \<and> check_exposure_limits 0.8 3 0.9 5 = 0.52
   \<and> 0.8 + check_exposure_limits 0.8 3 0.9 5 \<le> MAX_CAPITAL_USAGE_bot
   \<and> current_notional_of 0.8 3 + check_exposure_limits 0.8 3 0.9 5 * 5
       \<le> MAX_NOTIONAL_EXPOSURE"
  using exposure_limiter_satisfies_both_caps [of "0.8" "0.9" 3 5]
  by (simp add: MAX_CAPITAL_USAGE_bot_def MAX_NOTIONAL_EXPOSURE_def current_notional_of_def)

section \<open>Safety validator: adjustments\<close>

text \<open>
  Claim C3: for every position with an average price and every current price at which
  the leveraged return, (current price - average price) / average price times the
  leverage, is negative, \<open>validate_adjustment\<close> with the decision \<open>REDUCE\<close> does not
  approve, whatever the amount, the day's ledger and the clock.
\<close>

theorem reduce_in_loss_is_rejected:
  assumes "action decision = Some ''REDUCE''"
      and "average_price pos = Some avg"
      and "(price - avg) / avg * get_or (leverage pos) 1 < 0"
  shows "fst (fst (validate_adjustment self today now decision pos price)) = False"
proof -
  have ne: "pos \<noteq> empty_position" using assms(2) by (auto simp: empty_position_def)
  have nz: "avg \<noteq> 0" using assms(3) by auto
  have scale: "x * 100 < 0" if "x < 0" for x :: real
    using that by simp
  have "calculate_roi (Some pos) price = (price - avg) / avg * get_or (leverage pos) 1 * 100"
    using ne nz assms(2) by (simp add: calculate_roi_def Let_def)
  moreover have "(price - avg) / avg * get_or (leverage pos) 1 * 100 < 0"
    by (rule scale [OF assms(3)])
  ultimately have "calculate_roi (Some pos) price < 0" by simp
  then show ?thesis using assms(1)
    by (simp add: validate_adjustment_def Let_def)
qed

theorem reduce_in_loss_is_rejected_witness:
  "((108000::real) - 109979) / 109979 * 4 < 0
   \<and> fst (fst (validate_adjustment new_validator ''2025-10-30'' 1761800000
        \<lparr>action = Some ''REDUCE'', size_or_amount = Some 0.15, reasoning = None,
          confidence = None\<rparr>
        (empty_position\<lparr>average_price := Some 109979, size_p := Some 0.01,
           leverage := Some 4, capital_used := Some 0.80\<rparr>) 108000)) = False"
proof -
  have loss: "((108000::real) - 109979) / 109979 * 4 < 0" by simp
  have "fst (fst (validate_adjustment new_validator ''2025-10-30'' 1761800000
        \<lparr>action = Some ''REDUCE'', size_or_amount = Some 0.15, reasoning = None,
          confidence = None\<rparr>
        (empty_position\<lparr>average_price := Some 109979, size_p := Some 0.01,
           leverage := Some 4, capital_used := Some 0.80\<rparr>) 108000)) = False"
    by (rule reduce_in_loss_is_rejected [where avg = 109979])
       (simp_all add: get_or_def empty_position_def)
  with loss show ?thesis by blast
qed

text \<open>
  Claim C7 says that an \<open>ADD\<close> is clipped to 0.05 and rejected whenever the clipped
  amount would lift the notional above 5.0. For a position at capital 1.0 and leverage 5
  (notional 5.0) an \<open>ADD\<close> of 0.08 is approved at 0.05 although 5.0 + 0.05 * 5 is above
  the limit: the branch that caps the amount returns before the notional is checked.
\<close>

theorem capped_add_skips_notional_check:
  "validate_adjustment new_validator ''2025-10-30'' 1761800000
     \<lparr>action = Some ''ADD'', size_or_amount = Some 0.08, reasoning = None, confidence = None\<rparr>
     (empty_position\<lparr>average_price := Some 109979, size_p := Some 0.01, leverage := Some 5,
        capital_used := Some 1.0\<rparr>) 110000
   = ((True, Capped_at_max_add,
       Some \<lparr>action = Some ''ADD'', size_or_amount = Some 0.05, reasoning = None,
             confidence = None\<rparr>), new_validator)
   \<and> calculate_current_notional (Some (empty_position\<lparr>average_price := Some 109979,
         size_p := Some 0.01, leverage := Some 5, capital_used := Some 1.0\<rparr>)) + 0.05 * 5
       > MAX_TOTAL_NOTIONAL"
  by (simp add: validate_adjustment_def new_validator_def get_or_def Let_def
      MAX_ADJUSTMENTS_PER_DAY_def MAX_ADD_PER_REVIEW_def calculate_current_notional_def
      empty_position_def MAX_TOTAL_NOTIONAL_def)

text \<open>
  The same position with an \<open>ADD\<close> of exactly 0.05, which is not capped, reaches the
  notional check and is rejected.
\<close>

lemma uncapped_add_reaches_notional_check:
  "fst (validate_adjustment new_validator ''2025-10-30'' 1761800000
     \<lparr>action = Some ''ADD'', size_or_amount = Some 0.05, reasoning = None, confidence = None\<rparr>
     (empty_position\<lparr>average_price := Some 109979, size_p := Some 0.01, leverage := Some 5,
        capital_used := Some 1.0\<rparr>) 110000)
   = (False, Would_exceed_notional_limit, None)"
  by (simp add: validate_adjustment_def new_validator_def get_or_def Let_def
      MAX_ADJUSTMENTS_PER_DAY_def MAX_ADD_PER_REVIEW_def calculate_current_notional_def
      empty_position_def MAX_TOTAL_NOTIONAL_def)

section \<open>Safety validator: what a validation changes\<close>

text \<open>
  Claim C10: \<open>validate_entry\<close>, \<open>validate_adjustment\<close> and \<open>validate_exit\<close> return
  the validator as they received it, with the same \<open>adjustment_log\<close> and the same
  \<open>last_adjustment_time\<close>, whatever the verdict; \<open>log_adjustment\<close> appends one
  record to the ledger of the day and sets \<open>last_adjustment_time\<close> to the clock.
\<close>

theorem validation_leaves_validator_unchanged:
  "snd (validate_entry self decision cur) = self
   \<and> snd (validate_adjustment self today now decision pos price) = self
   \<and> snd (validate_exit self decision pos) = self
   \<and> adjustment_log (log_adjustment self today now_iso now act amt) today
       = Some (get_or (adjustment_log self today) []
               @ [\<lparr>adj_time = now_iso, adj_action = act, adj_amount = amt\<rparr>])
   \<and> last_adjustment_time (log_adjustment self today now_iso now act amt) = now"
proof -
  have 1: "snd (validate_entry self decision cur) = self"
    unfolding validate_entry_def Let_def
    by (simp split: sum.split option.split)
  have 2: "snd (validate_adjustment self today now decision pos price) = self"
    by (simp add: validate_adjustment_def Let_def)
  have 3: "snd (validate_exit self decision pos) = self"
    by (simp add: validate_exit_def Let_def)
  have 4: "adjustment_log (log_adjustment self today now_iso now act amt) today
       = Some (get_or (adjustment_log self today) []
               @ [\<lparr>adj_time = now_iso, adj_action = act, adj_amount = amt\<rparr>])"
    by (auto simp: log_adjustment_def Let_def get_or_def dom_def split: option.split)
  have 5: "last_adjustment_time (log_adjustment self today now_iso now act amt) = now"
    by (simp add: log_adjustment_def Let_def)
  show ?thesis using 1 2 3 4 5 by blast
qed

section \<open>Exposure caps over sequences of entries and scale-ins\<close>

lemma schedule_values:
  "leverage_schedule 0 = 3" "leverage_schedule 1 = 3" "leverage_schedule 2 = 4"
  "leverage_schedule 3 = 5" "leverage_schedule 4 = 5"
  by (simp_all add: leverage_schedule_def LEVERAGE_base_def LEVERAGE_scale_in_def get_or_def)

lemma schedule_mono:
  assumes "j \<le> k" "k \<le> 4"
  shows "leverage_schedule j \<le> leverage_schedule k \<and> 0 < leverage_schedule j"
proof -
  have "k = 0 \<or> k = 1 \<or> k = 2 \<or> k = 3 \<or> k = 4" using assms(2) by arith
  moreover have "j = 0 \<or> j = 1 \<or> j = 2 \<or> j = 3 \<or> j = 4" using assms by arith
  ultimately show ?thesis using assms(1) schedule_values by auto
qed

lemma new_leverage_is_schedule:
  assumes "i < 4"
  shows "get_or (map_of LEVERAGE_scale_in (i + 1)) d = leverage_schedule (i + 1)"
proof -
  have "i = 0 \<or> i = 1 \<or> i = 2 \<or> i = 3" using assms by arith
  then show ?thesis
    by (auto simp: leverage_schedule_def LEVERAGE_scale_in_def get_or_def)
qed

lemma limits_nonneg:
  assumes "0 < d" "0 < lev"
  shows "0 \<le> check_exposure_limits S L d lev"
  using assms
  by (auto simp: check_exposure_limits_def Let_def not_le)

lemma limits_capital:
  assumes "S \<le> MAX_CAPITAL_USAGE_bot" "0 < lev"
  shows "S + check_exposure_limits S L d lev \<le> MAX_CAPITAL_USAGE_bot"
proof -
  have div: "(m - c) / lev < x" if "m < c + x * lev" for m c x :: real
    using that assms(2) by (simp add: pos_divide_less_eq algebra_simps)
  show ?thesis
    using assms(1)
    by (auto simp: check_exposure_limits_def Let_def not_le not_less dest!: div)
qed

lemma limits_notional:
  assumes "check_exposure_limits S L d lev \<noteq> 0" "0 < lev"
  shows "current_notional_of S L + check_exposure_limits S L d lev * lev
           \<le> MAX_NOTIONAL_EXPOSURE"
  using assms
  by (auto simp: check_exposure_limits_def Let_def not_le not_less split: if_splits)


lemma validate_entry_flat:
  "validate_entry v d None = (Inr (False, Size_below_minimum, None), v)
   \<or> (\<exists>why a fs. validate_entry v d None = (Inr (True, why, Some a), v)
         \<and> size_or_amount a = Some fs \<and> 0.25 \<le> fs \<and> fs \<le> 0.75)"
proof -
  define sz where "sz = get_or (size_or_amount d) 0"
  consider (low) "sz < 0.25" | (high) "\<not> sz < 0.25" "sz > 0.75"
    | (mid) "\<not> sz < 0.25" "\<not> sz > 0.75"
    by blast
  then show ?thesis
  proof cases
    case low
    then have "validate_entry v d None = (Inr (False, Size_below_minimum, None), v)"
      by (simp add: validate_entry_def Let_def sz_def [symmetric] MIN_POSITION_SIZE_def)
    then show ?thesis by (rule disjI1)
  next
    case high
    then have e: "validate_entry v d None
        = (Inr (True, Capped_at_maximum, Some (d\<lparr>size_or_amount := Some 0.75\<rparr>)), v)"
      by (simp add: validate_entry_def Let_def sz_def [symmetric] MIN_POSITION_SIZE_def
          MAX_POSITION_SIZE_def)
    have "validate_entry v d None
            = (Inr (True, Capped_at_maximum, Some (d\<lparr>size_or_amount := Some 0.75\<rparr>)), v)
          \<and> size_or_amount (d\<lparr>size_or_amount := Some 0.75\<rparr>) = Some 0.75
          \<and> (0.25::real) \<le> 0.75 \<and> (0.75::real) \<le> 0.75"
      using e by simp
    then show ?thesis by blast
  next
    case mid
    then have some: "size_or_amount d = Some sz"
      by (cases "size_or_amount d") (simp_all add: sz_def get_or_def)
    from mid have e: "validate_entry v d None = (Inr (True, Trade_approved, Some d), v)"
      by (simp add: validate_entry_def Let_def sz_def [symmetric] MIN_POSITION_SIZE_def
          MAX_POSITION_SIZE_def MAX_CAPITAL_USAGE_def calculate_current_notional_def
          MAX_TOTAL_NOTIONAL_def MAX_LEVERAGE_def)
    have "validate_entry v d None = (Inr (True, Trade_approved, Some d), v)
          \<and> size_or_amount d = Some sz \<and> 0.25 \<le> sz \<and> sz \<le> 0.75"
      using e some mid by simp
    then show ?thesis by blast
  qed
qed

lemma update_summary_complete:
  assumes "current_position lg = Some cp" "mirror_complete cp"
  shows "update_summary lg = Inr ()"
  using assms by (auto simp: update_summary_def mirror_complete_def)

lemma flat_inv_client [simp]: "flat_inv (b\<lparr>trading_client := c\<rparr>) = flat_inv b"
  by (simp add: flat_inv_def)

lemma open_inv_client [simp]: "open_inv (b\<lparr>trading_client := c\<rparr>) = open_inv b"
  by (simp add: open_inv_def split: option.split)

lemma enter_position_result:
  assumes "position b = None"
  shows "(\<exists>c. snd (enter_position b now_iso p s claude answer) = b\<lparr>trading_client := c\<rparr>)
         \<or> (\<exists>fs c. 0.25 \<le> fs \<and> fs \<le> 0.75
              \<and> snd (enter_position b now_iso p s claude answer)
                  = fst (snd (entry_filled (b\<lparr>trading_client := c\<rparr>) now_iso p fs
                                LEVERAGE_base)))"
proof -
  define cd where "cd = (case claude of
               Inr d \<Rightarrow> d
             | Inl e \<Rightarrow> empty_decision\<lparr>action := Some ''APPROVE'',
                          size_or_amount := Some (BASE_POSITION_SIZE * calculate_sentiment_multiplier s),
                          reasoning := Some ''Claude unavailable'',
                          confidence := Some 0.5\<rparr>)"
  define res where "res = enter_position b now_iso p s claude answer"
  have same: "b\<lparr>trading_client := trading_client b\<rparr> = b" by simp
  have unchanged: ?thesis if "snd res = b"
  proof -
    have "snd res = b\<lparr>trading_client := trading_client b\<rparr>" using that same by simp
    then show ?thesis unfolding res_def by blast
  qed
  consider (rej) "validate_entry (safety b) cd None = (Inr (False, Size_below_minimum, None), safety b)"
    | (ok) why a fs where "validate_entry (safety b) cd None = (Inr (True, why, Some a), safety b)"
        "size_or_amount a = Some fs" "0.25 \<le> fs" "fs \<le> 0.75"
    using validate_entry_flat [of "safety b" cd] by blast
  then show ?thesis
  proof cases
    case rej
    then have "snd res = b" using assms
      by (simp add: res_def enter_position_def Let_def cd_def [symmetric] split: option.split)
    then show ?thesis by (rule unchanged)
  next
    case ok
    have ne: "a \<noteq> empty_decision" using ok(2) by (auto simp: empty_decision_def)
    have leaf: "snd res = b \<or> snd res = b\<lparr>trading_client := c\<rparr>
          \<or> snd res = fst (snd (entry_filled (b\<lparr>trading_client := c\<rparr>) now_iso p fs
                                   LEVERAGE_base))"
      if cl: "(if shadow_mode b then (Inr True, trading_client b)
               else enter_long_position (trading_client b) fs LEVERAGE_base p answer)
              = (out, c)" for out c
    proof (cases "shadow_mode b")
      case True
      then have c: "c = trading_client b" and out: "out = Inr True" using cl by simp_all
      have "snd res = b \<or> snd res = fst (snd (entry_filled b now_iso p fs LEVERAGE_base))"
        using ok(1,2) ne assms True
        by (simp add: res_def enter_position_def Let_def cd_def [symmetric] subscript_def
                 split_beta split: option.split sum.split)
      then show ?thesis using c same by auto
    next
      case False
      then have el: "enter_long_position (trading_client b) fs LEVERAGE_base p answer
                       = (out, c)"
        using cl by simp
      show ?thesis
      proof (cases out)
        case (Inl e)
        have "snd res = b \<or> snd res = b\<lparr>trading_client := c\<rparr>"
          using ok(1,2) ne assms False el Inl
          by (simp add: res_def enter_position_def Let_def cd_def [symmetric] subscript_def
                   split: option.split)
        then show ?thesis by blast
      next
        case (Inr success)
        have "snd res = b \<or> snd res = b\<lparr>trading_client := c\<rparr>
          \<or> snd res = fst (snd (entry_filled (b\<lparr>trading_client := c\<rparr>) now_iso p fs
                                   LEVERAGE_base))"
          using ok(1,2) ne assms False el Inr
          by (simp add: res_def enter_position_def Let_def cd_def [symmetric] subscript_def
                   split_beta split: option.split sum.split)
        then show ?thesis .
      qed
    qed
    obtain out c where
      "(if shadow_mode b then (Inr True, trading_client b)
        else enter_long_position (trading_client b) fs LEVERAGE_base p answer) = (out, c)"
      by (cases "if shadow_mode b then (Inr True, trading_client b)
                 else enter_long_position (trading_client b) fs LEVERAGE_base p answer")
    from leaf [OF this] show ?thesis
    proof (elim disjE)
      assume "snd res = b"
      then show ?thesis by (rule unchanged)
    next
      assume "snd res = b\<lparr>trading_client := c\<rparr>"
      then show ?thesis unfolding res_def by blast
    next
      assume "snd res = fst (snd (entry_filled (b\<lparr>trading_client := c\<rparr>) now_iso p fs
                                   LEVERAGE_base))"
      then show ?thesis using ok(3,4) unfolding res_def by blast
    qed
  qed
qed

lemma entry_filled_inv:
  assumes "flat_inv b" "0.25 \<le> fs" "fs \<le> 0.75"
  shows "open_inv (fst (snd (entry_filled b now_iso p fs LEVERAGE_base)))"
  using assms
  by (simp add: entry_filled_def log_entry_decision_def open_inv_def flat_inv_def
      Let_def empty_position_def MAX_CAPITAL_USAGE_bot_def leverage_schedule_def
      logged_notional_def MAX_NOTIONAL_EXPOSURE_def LEVERAGE_base_def
      mirror_complete_def)


lemma open_invE:
  assumes "open_inv b"
  obtains pos cp a ac x where
    "position b = Some pos" "current_position (logger b) = Some cp"
    "average_price pos = Some a" "average_price cp = Some ac"
    "size_p cp = Some x" "0 < x" "mirror_complete cp"
  using assms
  by (auto simp: open_inv_def split: option.splits)

lemma open_inv_facts:
  assumes "open_inv b"
  shows "0 < total_position_size b"
    and "total_position_size b \<le> MAX_CAPITAL_USAGE_bot"
    and "scale_in_count b \<le> 4"
    and "current_leverage b = leverage_schedule (scale_in_count b)"
    and "logged_notional (decisions (logger b))
           \<le> total_position_size b * current_leverage b"
    and "logged_notional (decisions (logger b)) \<le> MAX_NOTIONAL_EXPOSURE"
  using assms
  by (auto simp: open_inv_def split: option.splits)

lemma logged_notional_snoc:
  "logged_notional (ds @ [d]) = logged_notional ds + fill_notional d"
  by (simp add: logged_notional_def)

lemma scale_in_filled_inv:
  assumes inv: "open_inv b"
      and r: "0 < r"
      and cap: "total_position_size b + r \<le> MAX_CAPITAL_USAGE_bot"
      and i: "i < 4" "scale_in_count b \<le> i"
      and lev: "lev = leverage_schedule (i + 1)"
      and notional: "total_position_size b * current_leverage b + r * lev
                       \<le> MAX_NOTIONAL_EXPOSURE"
  shows "open_inv (snd (scale_in_filled b p r lev dev i))"
proof -
  from inv obtain pos cp a ac x where
    pos: "position b = Some pos" and cp: "current_position (logger b) = Some cp"
    and a: "average_price pos = Some a" and ac: "average_price cp = Some ac"
    and x: "size_p cp = Some x" "0 < x" and mc: "mirror_complete cp"
    by (rule open_invE)
  note f = open_inv_facts [OF inv]
  define S where "S = total_position_size b"
  define L where "L = current_leverage b"
  define F where "F = logged_notional (decisions (logger b))"
  have S: "0 < S" "S \<le> MAX_CAPITAL_USAGE_bot" and FL: "F \<le> S * L"
    using f by (simp_all add: S_def L_def F_def)
  have Llev: "L \<le> lev" and Lpos: "0 < L"
    using schedule_mono [of "scale_in_count b" "i + 1"] i f(4) lev
    by (simp_all add: L_def)
  have nz1: "x + r * 100 \<noteq> 0" using x(2) r by simp
  have nz2: "S + r \<noteq> 0" using S(1) r by simp
  define d where "d = SCALE_IN p (r * 100) (x + r * 100) lev (dev * 100) ac
                        ((x * ac + r * 100 * p) / (x + r * 100))"
  define lg where "lg = (logger b)\<lparr>current_position := Some (cp\<lparr>size_p := Some (x + r * 100),
                                 average_price := Some ((x * ac + r * 100 * p) / (x + r * 100)),
                                 leverage := Some lev\<rparr>),
                              decisions := decisions (logger b) @ [d]\<rparr>"
  have mc': "mirror_complete (cp\<lparr>size_p := Some (x + r * 100),
                                 average_price := Some ((x * ac + r * 100 * p) / (x + r * 100)),
                                 leverage := Some lev\<rparr>)"
    using mc by (simp add: mirror_complete_def)
  have sum: "update_summary lg = Inr ()"
    by (rule update_summary_complete [OF _ mc']) (simp add: lg_def)
  have log: "log_scale_decision (logger b) p (r * 100) lev (dev * 100) = (Inr d, lg)"
    using cp ac x nz1 sum
    by (simp add: log_scale_decision_def Let_def d_def [symmetric] lg_def [symmetric])
  define b' where "b' = b\<lparr>logger := lg,
                          position := Some (pos\<lparr>average_price := Some ((S * a + r * p) / (S + r))\<rparr>),
                          total_position_size := S + r,
                          current_leverage := lev,
                          scale_in_count := i + 1\<rparr>"
  have res: "scale_in_filled b p r lev dev i = (Inr d, b')"
    using log pos a nz2
    by (simp add: scale_in_filled_def Let_def b'_def S_def)
  have F': "logged_notional (decisions (logger b')) = F + r * lev"
    by (simp add: b'_def lg_def logged_notional_snoc d_def F_def)
  have "S * L \<le> S * lev" using Llev S(1) by simp
  then have le1: "F + r * lev \<le> (S + r) * lev" using FL by (simp add: algebra_simps)
  have le2: "F + r * lev \<le> MAX_NOTIONAL_EXPOSURE"
    using FL notional by (simp add: S_def L_def)
  have "open_inv b'"
    unfolding open_inv_def
    using F' le1 le2 r S cap i nz1 x(2) mc'
    by (simp add: b'_def lg_def S_def lev)
  then show ?thesis by (simp add: res)
qed


lemma multiplier_positive: "0 < calculate_sentiment_multiplier s"
proof -
  have "0.5 \<le> calculate_sentiment_multiplier s"
    by (simp add: calculate_sentiment_multiplier_def cap_multiplier_def Let_def)
  then show ?thesis by simp
qed

lemma scale_in_at_inv:
  assumes inv: "open_inv b" and i: "i < 4" "scale_in_count b \<le> i"
      and add: "0 < add level"
  shows "open_inv (snd (scale_in_at b p s answer dev i level))"
proof -
  note f = open_inv_facts [OF inv]
  define lev where "lev = leverage_schedule (i + 1)"
  define desired where "desired = add level * calculate_sentiment_multiplier s"
  define r where "r = check_exposure_limits (total_position_size b) (current_leverage b)
                        desired lev"
  have lev_eq: "get_or (map_of LEVERAGE_scale_in (i + 1)) (current_leverage b) = lev"
    using new_leverage_is_schedule [OF i(1)] by (simp add: lev_def)
  have levpos: "0 < lev"
    using schedule_mono [of "i + 1" "i + 1"] i(1) by (simp add: lev_def)
  have Lpos: "0 < current_leverage b"
    using schedule_mono [of "scale_in_count b" 4] f(3,4) by simp
  have dpos: "0 < desired"
    using add multiplier_positive [of s] by (simp add: desired_def)
  have rnn: "0 \<le> r" unfolding r_def by (rule limits_nonneg [OF dpos levpos])
  have rcap: "total_position_size b + r \<le> MAX_CAPITAL_USAGE_bot"
    unfolding r_def by (rule limits_capital [OF f(2) levpos])
  have lev_eq': "get_or (map_of LEVERAGE_scale_in (Suc i)) (current_leverage b) = lev"
    using lev_eq by simp
  have chk: "check_exposure_limits (total_position_size b) (current_leverage b)
               (add level * calculate_sentiment_multiplier s) lev = r"
    by (simp add: r_def desired_def)
  show ?thesis
  proof (cases "r = 0")
    case True
    then have "snd (scale_in_at b p s answer dev i level) = b"
      by (simp add: scale_in_at_def Let_def lev_eq' chk)
    then show ?thesis using inv by simp
  next
    case False
    then have rpos: "0 < r" using rnn by simp
    have "current_notional_of (total_position_size b) (current_leverage b) + r * lev
            \<le> MAX_NOTIONAL_EXPOSURE"
      using limits_notional [of "total_position_size b" "current_leverage b" desired lev]
        False levpos by (simp add: r_def)
    then have notional: "total_position_size b * current_leverage b + r * lev
                           \<le> MAX_NOTIONAL_EXPOSURE"
      using Lpos by (simp add: current_notional_of_def)
    obtain out c where cl: "scale_in_position (trading_client b) r lev p answer = (out, c)"
      by (cases "scale_in_position (trading_client b) r lev p answer")
    define bc where "bc = b\<lparr>trading_client := c\<rparr>"
    have invc: "open_inv bc" using inv by (simp add: bc_def)
    have rcapc: "total_position_size bc + r \<le> MAX_CAPITAL_USAGE_bot"
      using rcap by (simp add: bc_def)
    have ic: "scale_in_count bc \<le> i" using i(2) by (simp add: bc_def)
    have notionalc: "total_position_size bc * current_leverage bc + r * lev
                       \<le> MAX_NOTIONAL_EXPOSURE"
      using notional by (simp add: bc_def)
    have filled: "open_inv (snd (scale_in_filled bc p r lev dev i))"
      by (rule scale_in_filled_inv [OF invc rpos rcapc i(1) ic lev_def notionalc])
    have "snd (scale_in_at b p s answer dev i level) = bc
          \<or> snd (scale_in_at b p s answer dev i level) = snd (scale_in_filled bc p r lev dev i)"
      using False cl
      by (simp add: scale_in_at_def Let_def lev_eq' chk bc_def split: sum.split prod.split)
    then show ?thesis using invc filled by auto
  qed
qed

lemma scale_levels_loop_inv:
  assumes "open_inv b" "i + length levels \<le> 4" "\<forall>l \<in> set levels. 0 < add l"
  shows "open_inv (snd (scale_levels_loop b p s answer dev i levels))"
  using assms
proof (induction levels arbitrary: i)
  case Nil
  then show ?case by simp
next
  case (Cons level levels)
  show ?case
  proof (cases "dev \<le> deviation level \<and> i \<ge> scale_in_count b")
    case True
    have "open_inv (snd (scale_in_at b p s answer dev i level))"
      using Cons.prems True by (intro scale_in_at_inv) simp_all
    then show ?thesis using True by simp
  next
    case False
    have "open_inv (snd (scale_levels_loop b p s answer dev (i + 1) levels))"
      using Cons.prems by (intro Cons.IH) simp_all
    then show ?thesis using False by auto
  qed
qed

lemma check_scale_in_inv:
  assumes "open_inv b"
  shows "open_inv (snd (check_scale_in b p s answer))"
proof -
  have "open_inv (snd (scale_levels_loop b p s answer dev 0 SCALE_LEVELS))" for dev
    by (rule scale_levels_loop_inv [OF assms]) (simp_all add: SCALE_LEVELS_def)
  then show ?thesis using assms
    by (simp add: check_scale_in_def split: option.split)
qed

lemma open_inv_position: "open_inv b \<Longrightarrow> position b \<noteq> None"
  by (auto simp: open_inv_def split: option.splits)

lemma run_cycle_inv:
  assumes "flat_inv b \<or> open_inv b"
  shows "flat_inv (run_cycle b ev) \<or> open_inv (run_cycle b ev)"
proof (cases ev)
  case (Enter now_iso p s claude answer)
  show ?thesis
  proof (cases "position b = None")
    case True
    then have fl: "flat_inv b" using assms open_inv_position by blast
    have rc: "run_cycle b ev = snd (enter_position b now_iso p s claude answer)"
      using Enter True by simp
    from enter_position_result [OF True, of now_iso p s claude answer]
    show ?thesis
    proof
      assume "\<exists>c. snd (enter_position b now_iso p s claude answer) = b\<lparr>trading_client := c\<rparr>"
      then obtain c where "run_cycle b ev = b\<lparr>trading_client := c\<rparr>" using rc by auto
      then show ?thesis using fl by simp
    next
      assume "\<exists>fs c. 0.25 \<le> fs \<and> fs \<le> 0.75
              \<and> snd (enter_position b now_iso p s claude answer)
                  = fst (snd (entry_filled (b\<lparr>trading_client := c\<rparr>) now_iso p fs
                                LEVERAGE_base))"
      then obtain fs c where fs: "0.25 \<le> fs" "fs \<le> 0.75"
        and e: "snd (enter_position b now_iso p s claude answer)
                  = fst (snd (entry_filled (b\<lparr>trading_client := c\<rparr>) now_iso p fs
                                LEVERAGE_base))"
        by blast
      have flc: "flat_inv (b\<lparr>trading_client := c\<rparr>)" using fl by simp
      have "open_inv (fst (snd (entry_filled (b\<lparr>trading_client := c\<rparr>) now_iso p fs
                                  LEVERAGE_base)))"
        by (rule entry_filled_inv [OF flc fs])
      then show ?thesis using e rc by simp
    qed
  next
    case False
    then have "run_cycle b ev = b" using Enter by auto
    then show ?thesis using assms by simp
  qed
next
  case (Scale p s answer)
  show ?thesis
  proof (cases "position b = None")
    case True
    then have "run_cycle b ev = b" using Scale by simp
    then show ?thesis using assms by simp
  next
    case False
    then have "open_inv b" using assms by (auto simp: flat_inv_def)
    then have "open_inv (snd (check_scale_in b p s answer))" by (rule check_scale_in_inv)
    moreover have "run_cycle b ev = snd (check_scale_in b p s answer)"
      using Scale False by auto
    ultimately show ?thesis by simp
  qed
qed

lemma run_cycles_inv:
  assumes "flat_inv b \<or> open_inv b"
  shows "flat_inv (run_cycles b evs) \<or> open_inv (run_cycles b evs)"
  using assms unfolding run_cycles_def
proof (induction evs arbitrary: b)
  case Nil
  then show ?case by simp
next
  case (Cons ev evs)
  have "flat_inv (run_cycle b ev) \<or> open_inv (run_cycle b ev)"
    by (rule run_cycle_inv [OF Cons.prems])
  from Cons.IH [OF this] show ?case by simp
qed

lemma new_bot_flat: "flat_inv (new_bot shadow [])"
  by (simp add: flat_inv_def new_bot_def new_logger_def)


text \<open>The bot after the run that breaches the cap, and after the configured plan.\<close>

lemmas run_simps = run_cycles_def enter_position_def entry_filled_def validate_entry_def
  check_scale_in_def scale_in_at_def scale_in_filled_def log_scale_decision_def
  log_entry_decision_def check_exposure_limits_def current_notional_of_def
  calculate_sentiment_multiplier_def cap_multiplier_def calculate_current_notional_def
  new_bot_def new_logger_def new_validator_def get_or_def subscript_def Let_def
  empty_position_def empty_decision_def save_position_state_def update_summary_def
  enter_long_position_def scale_in_position_def new_client_def
  SCALE_LEVELS_def LEVERAGE_scale_in_def LEVERAGE_base_def BASE_POSITION_SIZE_def
  MAX_CAPITAL_USAGE_bot_def MAX_NOTIONAL_EXPOSURE_def MIN_POSITION_SIZE_def
  MAX_POSITION_SIZE_def MAX_CAPITAL_USAGE_def MAX_TOTAL_NOTIONAL_def MAX_LEVERAGE_def
  neutral_sentiment_def approve_80_def

lemma breach_run_state:
  "total_position_size (run_cycles (new_bot False []) breach_run) = 1.24
   \<and> current_leverage (run_cycles (new_bot False []) breach_run) = 5"
  by (simp add: run_simps breach_run_def)

lemma plan_run_state:
  "total_position_size (run_cycles (new_bot False []) plan_run) = 0.80
   \<and> current_leverage (run_cycles (new_bot False []) plan_run) = 4
   \<and> map_option leverage (position (run_cycles (new_bot False []) plan_run)) = Some (Some 3)"
  by (simp add: run_simps plan_run_def)

text \<open>
  Claim C1 says that after every sequence of approved entries and scale-ins the size is
  within \<open>MAX_CAPITAL_USAGE\<close> and the notional, size times leverage, is within 5.0.
  After an entry proposed at 0.80 (approved at 0.75 and leverage 3) and the scale-ins of
  the configured plan at 3, 4 and 5 times leverage (0.20, 0.25 and 0.04 after clipping),
  the bot holds a size of 1.24 at a current leverage of 5: the size is above the
  validator's \<open>MAX_CAPITAL_USAGE\<close> of 0.94, and the size times the leverage is 6.2.
\<close>

theorem exposure_state_exceeds_caps:
  "total_position_size (run_cycles (new_bot False []) breach_run) > MAX_CAPITAL_USAGE
   \<and> total_position_size (run_cycles (new_bot False []) breach_run)
       * current_leverage (run_cycles (new_bot False []) breach_run) > MAX_TOTAL_NOTIONAL"
  using breach_run_state by (simp add: MAX_CAPITAL_USAGE_def MAX_TOTAL_NOTIONAL_def)

text \<open>
  Claim C1, amended: for every sequence of entries (validated by \<open>validate_entry\<close>
  while the bot is flat) and scale-ins (sized by \<open>check_exposure_limits\<close>) run from a
  fresh bot, whatever the proposals, the prices, the sentiment and the answers of the
  advisor and of the exchange, the aggregate size never exceeds the limiter's capital cap
  of 1.35, and the aggregate notional, summed over the logged fills as size times the
  leverage of each fill, never exceeds 5.0.
\<close>

theorem exposure_caps_hold_over_fills:
  "total_position_size (run_cycles (new_bot shadow []) evs) \<le> MAX_CAPITAL_USAGE_bot
   \<and> logged_notional (decisions (logger (run_cycles (new_bot shadow []) evs)))
       \<le> MAX_NOTIONAL_EXPOSURE"
proof -
  define b where "b = run_cycles (new_bot shadow []) evs"
  have "flat_inv b \<or> open_inv b"
    unfolding b_def by (rule run_cycles_inv) (simp add: new_bot_flat)
  then show ?thesis
  proof
    assume "flat_inv b"
    then show ?thesis
      by (simp add: b_def [symmetric] flat_inv_def logged_notional_def
          MAX_CAPITAL_USAGE_bot_def MAX_NOTIONAL_EXPOSURE_def)
  next
    assume "open_inv b"
    from open_inv_facts(2,6) [OF this] show ?thesis by (simp add: b_def [symmetric])
  qed
qed

theorem exposure_caps_hold_over_fills_witness:
  "total_position_size (run_cycles (new_bot False []) breach_run) \<le> MAX_CAPITAL_USAGE_bot
   \<and> logged_notional (decisions (logger (run_cycles (new_bot False []) breach_run)))
       \<le> MAX_NOTIONAL_EXPOSURE"
  using exposure_caps_hold_over_fills [of False breach_run] .

section \<open>Average price after scale-ins\<close>

lemma syncedE:
  assumes "synced b a S"
  obtains pos cp where "position b = Some pos" "current_position (logger b) = Some cp"
    "average_price pos = Some a" "total_position_size b = S"
    "average_price cp = Some a" "size_p cp = Some (S * 100)" "mirror_complete cp"
  using assms by (auto simp: synced_def split: option.splits)

lemma entry_filled_synced:
  "synced (fst (snd (entry_filled b now_iso p0 s0 l0))) p0 s0"
  by (simp add: entry_filled_def log_entry_decision_def synced_def Let_def
      mirror_complete_def empty_position_def)

lemma percent_average:
  fixes S r a p :: real
  assumes "S + r \<noteq> 0"
  shows "(S * 100 * a + r * 100 * p) / (S * 100 + r * 100) = (S * a + r * p) / (S + r)"
proof -
  have num: "S * 100 * a + r * 100 * p = 100 * (S * a + r * p)"
    by (simp add: algebra_simps)
  have den: "S * 100 + r * 100 = 100 * (S + r)"
    by (simp add: algebra_simps)
  have "100 * (S * a + r * p) / (100 * (S + r)) = (S * a + r * p) / (S + r)"
    by (rule mult_divide_mult_cancel_left) simp
  then show ?thesis unfolding num den .
qed

lemma scale_in_filled_synced:
  assumes s: "synced b a S" and pos: "0 < S" "0 < r"
  shows "\<exists>d b'. scale_in_filled b p r lev dev i = (Inr d, b')
           \<and> synced b' ((S * a + r * p) / (S + r)) (S + r)"
proof -
  from s obtain pos cp where
    h: "position b = Some pos" "current_position (logger b) = Some cp"
       "average_price pos = Some a" "total_position_size b = S"
       "average_price cp = Some a" "size_p cp = Some (S * 100)"
    and mc: "mirror_complete cp"
    by (rule syncedE)
  have nz: "S + r \<noteq> 0" using pos by simp
  have nz100: "S * 100 + r * 100 \<noteq> 0" using pos by simp
  define na where "na = (S * a + r * p) / (S + r)"
  have pa: "(S * 100 * a + r * 100 * p) / (S * 100 + r * 100) = na"
    unfolding na_def by (rule percent_average [OF nz])
  define d where "d = SCALE_IN p (r * 100) (S * 100 + r * 100) lev (dev * 100) a na"
  define lg where "lg = (logger b)\<lparr>current_position := Some (cp\<lparr>size_p := Some (S * 100 + r * 100),
                                 average_price := Some na, leverage := Some lev\<rparr>),
                              decisions := decisions (logger b) @ [d]\<rparr>"
  have mc': "mirror_complete (cp\<lparr>size_p := Some (S * 100 + r * 100),
                                 average_price := Some na, leverage := Some lev\<rparr>)"
    using mc by (simp add: mirror_complete_def)
  have sum: "update_summary lg = Inr ()"
    by (rule update_summary_complete [OF _ mc']) (simp add: lg_def)
  have log: "log_scale_decision (logger b) p (r * 100) lev (dev * 100) = (Inr d, lg)"
    using h(2,5,6) nz100 sum
    by (simp add: log_scale_decision_def Let_def pa d_def [symmetric] lg_def [symmetric])
  define b' where "b' = b\<lparr>logger := lg,
                          position := Some (pos\<lparr>average_price := Some na\<rparr>),
                          total_position_size := S + r,
                          current_leverage := lev,
                          scale_in_count := i + 1\<rparr>"
  have res: "scale_in_filled b p r lev dev i = (Inr d, b')"
    using log h(1,3,4) nz
    by (simp add: scale_in_filled_def Let_def b'_def na_def)
  have "synced b' na (S + r)"
    using mc' by (simp add: synced_def b'_def lg_def algebra_simps)
  then show ?thesis using res unfolding na_def by blast
qed

lemma scale_ins_filled_synced:
  assumes "synced b a S" "0 < S" "\<forall>f \<in> set fs. 0 < fill_size f"
  shows "\<exists>b'. scale_ins_filled b fs = Inr b'
           \<and> synced b'
                ((S * a + (\<Sum>f\<leftarrow>fs. fill_size f * fill_price f)) / (S + (\<Sum>f\<leftarrow>fs. fill_size f)))
                (S + (\<Sum>f\<leftarrow>fs. fill_size f))"
  using assms
proof (induction fs arbitrary: b a S)
  case Nil
  then show ?case by simp
next
  case (Cons f fs)
  define r where "r = fill_size f"
  define p where "p = fill_price f"
  have rpos: "0 < r" using Cons.prems(3) by (simp add: r_def)
  from scale_in_filled_synced [OF Cons.prems(1,2) rpos, of p "fill_leverage f"
         "fill_deviation f" "scale_in_count b"]
  obtain d b1 where
    step: "scale_in_filled b p r (fill_leverage f) (fill_deviation f) (scale_in_count b)
             = (Inr d, b1)"
    and s1: "synced b1 ((S * a + r * p) / (S + r)) (S + r)"
    by blast
  have S1: "0 < S + r" using Cons.prems(2) rpos by simp
  have rest: "\<forall>f \<in> set fs. 0 < fill_size f" using Cons.prems(3) by simp
  from Cons.IH [OF s1 S1 rest] obtain b' where
    run: "scale_ins_filled b1 fs = Inr b'"
    and s': "synced b'
                (((S + r) * ((S * a + r * p) / (S + r)) + (\<Sum>f\<leftarrow>fs. fill_size f * fill_price f))
                   / (S + r + (\<Sum>f\<leftarrow>fs. fill_size f)))
                (S + r + (\<Sum>f\<leftarrow>fs. fill_size f))"
    by blast
  have cancel: "(S + r) * ((S * a + r * p) / (S + r)) = S * a + r * p"
    using S1 by simp
  have "scale_ins_filled b (f # fs) = Inr b'"
    using step run by (simp add: r_def p_def)
  moreover have "synced b'
       ((S * a + (\<Sum>f\<leftarrow>f # fs. fill_size f * fill_price f)) / (S + (\<Sum>f\<leftarrow>f # fs. fill_size f)))
       (S + (\<Sum>f\<leftarrow>f # fs. fill_size f))"
    using s' unfolding cancel by (simp add: r_def p_def add.assoc)
  ultimately show ?case by blast
qed


text \<open>
  Claim C2: after a position is opened at price \<open>p0\<close> with size \<open>s0\<close> and scaled in
  at price \<open>p1\<close> with size \<open>s1\<close>, its average price is
  \<open>(s0 * p0 + s1 * p1) / (s0 + s1)\<close>; after any number of filled scale-ins of positive
  size, at any prices, no exception is raised and the average price of the bot's
  position, and of the logger's mirror, is the capital-weighted average of all fill
  prices.
\<close>

theorem average_price_is_capital_weighted:
  assumes "0 < s0" and "\<forall>f \<in> set fs. 0 < fill_size f"
  shows "\<exists>b' pos cp. scale_ins_filled (fst (snd (entry_filled b now_iso p0 s0 l0))) fs = Inr b'
           \<and> position b' = Some pos \<and> current_position (logger b') = Some cp
           \<and> average_price pos
               = Some (capital_weighted_average
                         ((s0, p0) # map (\<lambda>f. (fill_size f, fill_price f)) fs))
           \<and> average_price cp = average_price pos
           \<and> (\<forall>f. fs = [f] \<longrightarrow>
                average_price pos
                  = Some ((s0 * p0 + fill_size f * fill_price f) / (s0 + fill_size f)))"
proof -
  have start: "synced (fst (snd (entry_filled b now_iso p0 s0 l0))) p0 s0"
    by (rule entry_filled_synced)
  from scale_ins_filled_synced [OF start assms]
  obtain b' where run: "scale_ins_filled (fst (snd (entry_filled b now_iso p0 s0 l0))) fs = Inr b'"
    and s: "synced b'
              ((s0 * p0 + (\<Sum>f\<leftarrow>fs. fill_size f * fill_price f)) / (s0 + (\<Sum>f\<leftarrow>fs. fill_size f)))
              (s0 + (\<Sum>f\<leftarrow>fs. fill_size f))"
    by blast
  from s obtain pos cp where
    h: "position b' = Some pos" "current_position (logger b') = Some cp"
       "average_price pos
          = Some ((s0 * p0 + (\<Sum>f\<leftarrow>fs. fill_size f * fill_price f)) / (s0 + (\<Sum>f\<leftarrow>fs. fill_size f)))"
       "average_price cp
          = Some ((s0 * p0 + (\<Sum>f\<leftarrow>fs. fill_size f * fill_price f)) / (s0 + (\<Sum>f\<leftarrow>fs. fill_size f)))"
    by (rule syncedE)
  have cwa: "capital_weighted_average ((s0, p0) # map (\<lambda>f. (fill_size f, fill_price f)) fs)
        = (s0 * p0 + (\<Sum>f\<leftarrow>fs. fill_size f * fill_price f)) / (s0 + (\<Sum>f\<leftarrow>fs. fill_size f))"
    by (simp add: capital_weighted_average_def comp_def)
  have one: "\<forall>f. fs = [f] \<longrightarrow>
                average_price pos
                  = Some ((s0 * p0 + fill_size f * fill_price f) / (s0 + fill_size f))"
    using h(3) by auto
  show ?thesis using run h cwa one by auto
qed

theorem average_price_is_capital_weighted_witness:
  "(0::real) < 0.35
   \<and> (0::real) < fill_size \<lparr>fill_price = 98500, fill_size = 0.20, fill_leverage = 3,
                         fill_deviation = - 0.015\<rparr>
   \<and> (\<exists>b' pos. scale_ins_filled
                  (fst (snd (entry_filled (new_bot False []) ''2025-10-30T12:00:00''
                               100000 0.35 3)))
                  [\<lparr>fill_price = 98500, fill_size = 0.20, fill_leverage = 3,
                    fill_deviation = - 0.015\<rparr>] = Inr b'
          \<and> position b' = Some pos
          \<and> average_price pos = Some ((0.35 * 100000 + 0.20 * 98500) / (0.35 + 0.20)))"
proof -
  have h1: "(0::real) < 0.35" by simp
  have h2: "\<forall>f \<in> set [\<lparr>fill_price = 98500, fill_size = 0.20, fill_leverage = 3,
                    fill_deviation = - 0.015\<rparr>]. (0::real) < fill_size f"
    by simp
  from average_price_is_capital_weighted [OF h1 h2, of "new_bot False []"
         "''2025-10-30T12:00:00''" 100000 3]
  obtain b' pos where
    "scale_ins_filled
       (fst (snd (entry_filled (new_bot False []) ''2025-10-30T12:00:00'' 100000 0.35 3)))
       [\<lparr>fill_price = 98500, fill_size = 0.20, fill_leverage = 3,
         fill_deviation = - 0.015\<rparr>] = Inr b'"
    "position b' = Some pos"
    "\<forall>f. [\<lparr>fill_price = 98500, fill_size = 0.20, fill_leverage = 3,
            fill_deviation = - 0.015\<rparr>] = [f] \<longrightarrow>
         average_price pos
           = Some ((0.35 * 100000 + fill_size f * fill_price f) / (0.35 + fill_size f))"
    by blast
  then have "scale_ins_filled
       (fst (snd (entry_filled (new_bot False []) ''2025-10-30T12:00:00'' 100000 0.35 3)))
       [\<lparr>fill_price = 98500, fill_size = 0.20, fill_leverage = 3,
         fill_deviation = - 0.015\<rparr>] = Inr b'
     \<and> position b' = Some pos
     \<and> average_price pos = Some ((0.35 * 100000 + 0.20 * 98500) / (0.35 + 0.20))"
    by simp
  moreover have "(0::real) < fill_size \<lparr>fill_price = 98500, fill_size = 0.20,
                         fill_leverage = 3, fill_deviation = - 0.015\<rparr>"
    by simp
  ultimately show ?thesis using h1 by blast
qed

section \<open>Leverage after a scale-in\<close>

text \<open>
  After a filled scale-in the bot's current leverage is the leverage of the new trade,
  and the leverage in its position dict is the one written at the entry.
\<close>

lemma scale_in_filled_leverage:
  assumes "scale_in_filled b p r lev dev i = (Inr d, b')"
  shows "current_leverage b' = lev
         \<and> map_option leverage (position b') = map_option leverage (position b)"
  using assms
  by (auto simp: scale_in_filled_def Let_def
           split: prod.splits sum.splits option.splits if_splits)

text \<open>
  Claim C5 says that after a scale-in the leverage of the position is the
  capital-weighted average of the old leverage and the leverage of the new trade. With
  the advisor unavailable, the configured plan enters 0.35 at leverage 3, adds 0.20 at
  leverage 3 and 0.25 at leverage 4: the bot's current leverage is then 4, the leverage
  of the last trade, and the leverage in the position dict is still 3, while the
  capital-weighted average is 3.3125.
\<close>

theorem scale_in_overwrites_leverage:
  "total_position_size (run_cycles (new_bot False []) plan_run) = 0.35 + 0.20 + 0.25
   \<and> current_leverage (run_cycles (new_bot False []) plan_run) = 4
   \<and> map_option leverage (position (run_cycles (new_bot False []) plan_run)) = Some (Some 3)
   \<and> (3 * 0.35 + 3 * 0.20 + 4 * 0.25) / (0.35 + 0.20 + 0.25) = (3.3125::real)"
  using plan_run_state by simp

section \<open>Position recovery\<close>

lemma recover_position_fields:
  assumes "recover_position (Some live) file now_iso = (Inr (has, rp, le), file')"
  shows "has \<and> (\<exists>pos ap t n. rp = Some pos
           \<and> entry_price pos = Some (entry_price_l live) \<and> average_price pos = Some ap
           \<and> size_p pos = Some (amount live)
           \<and> leverage pos = Some (get_or (leverage_l live) 3)
           \<and> entry_time pos = Some t \<and> scale_in_count_p pos = Some n)"
  using assms
  by (auto simp: recover_position_def Let_def empty_position_def
           split: sum.splits option.splits if_splits)

lemma log_recovery_sets_mirror:
  assumes "entry_price pos = Some ep" "average_price pos = Some ap"
      and "size_p pos = Some sz" "leverage pos = Some lev"
  shows "\<exists>lg' m. log_recovery lg now_iso pos = Inr lg' \<and> current_position lg' = Some m
           \<and> entry_price m = Some ep \<and> average_price m = Some ap
           \<and> size_p m = Some sz \<and> leverage m = Some lev \<and> status m = Some ''OPEN''"
  using assms by (simp add: log_recovery_def)


text \<open>
  The constructor runs both steps: when it returns with a live exchange position, the
  bot's position and the logger's mirror hold the same prices, size and leverage.
\<close>

lemma constructor_recovery_sets_mirror:
  assumes "init_bot shadow existing (Some live) file now_iso = (Inr b, file')"
  shows "\<exists>pos m. position b = Some pos \<and> current_position (logger b) = Some m
           \<and> entry_price m = entry_price pos \<and> average_price m = average_price pos
           \<and> size_p m = size_p pos \<and> leverage m = leverage pos
           \<and> total_position_size b = amount live"
proof -
  obtain res f1 where r: "recover_position (Some live) file now_iso = (res, f1)"
    by (cases "recover_position (Some live) file now_iso")
  show ?thesis
  proof (cases res)
    case (Inl e)
    then show ?thesis using assms r by (simp add: init_bot_def Let_def)
  next
    case (Inr t)
    obtain has rp le where t: "t = (has, rp, le)" by (cases t)
    have rr: "recover_position (Some live) file now_iso = (Inr (has, rp, le), f1)"
      using r Inr t by simp
    from recover_position_fields [OF rr]
    obtain pos ap where h: has "rp = Some pos"
      "entry_price pos = Some (entry_price_l live)" "average_price pos = Some ap"
      "size_p pos = Some (amount live)" "leverage pos = Some (get_or (leverage_l live) 3)"
      by auto
    show ?thesis using assms r Inr t h
      by (auto simp: init_bot_def Let_def log_recovery_def)
  qed
qed

text \<open>
  When \<open>recover_position\<close> returns for a live exchange position and \<open>log_recovery\<close>
  is then called on the logger with the recovered position, no exception is raised, the
  logger's \<open>current_position\<close> is set, and its entry price, average price, size and
  leverage are those of the recovered position.
\<close>

lemma recovery_sets_logger_mirror:
  assumes "recover_position (Some live) file now_iso = (Inr (has, rp, le), file')"
  shows "\<exists>pos lg' m. has \<and> rp = Some pos
           \<and> log_recovery lg now_iso' pos = Inr lg'
           \<and> current_position lg' = Some m
           \<and> entry_price m = entry_price pos \<and> average_price m = average_price pos
           \<and> size_p m = size_p pos \<and> leverage m = leverage pos
           \<and> entry_price pos \<noteq> None \<and> average_price pos \<noteq> None
           \<and> size_p pos \<noteq> None \<and> leverage pos \<noteq> None"
proof -
  from recover_position_fields [OF assms] obtain pos ap where
    h: has and rp: "rp = Some pos" and ep: "entry_price pos = Some (entry_price_l live)"
    and ap: "average_price pos = Some ap" and sz: "size_p pos = Some (amount live)"
    and lev: "leverage pos = Some (get_or (leverage_l live) 3)"
    by blast
  from log_recovery_sets_mirror [OF ep ap sz lev, of lg now_iso'] obtain lg' m where
    "log_recovery lg now_iso' pos = Inr lg'" "current_position lg' = Some m"
    "entry_price m = Some (entry_price_l live)" "average_price m = Some ap"
    "size_p m = Some (amount live)" "leverage m = Some (get_or (leverage_l live) 3)"
    by blast
  then show ?thesis using h rp ep ap sz lev by auto
qed

text \<open>
  The constructor never assigns the position of the bot's trading client, and a client
  without a position raises at its first scale-in, whatever the exchange answers.
\<close>

lemma constructor_leaves_client_untouched:
  assumes "init_bot shadow existing live file now_iso = (Inr b, file')"
  shows "trading_client b = new_client"
  using assms
  by (auto simp: init_bot_def new_bot_def Let_def
           split: prod.splits sum.splits option.splits if_splits)

lemma scale_in_position_without_position:
  assumes "position_c c = None"
  shows "scale_in_position c add_percentage new_leverage current_price answer
           = (Inl AttributeError, c)"
  using assms by (simp add: scale_in_position_def)

text \<open>
  Claim C6 says that after the recovery step the logger's mirror is set to the fields of
  the reconciled position, so that no component is left believing that no position
  exists. The bot is started while the exchange reports 0.01 BTC entered at 109979.94
  with leverage 4, and there is no state file. The constructor returns with the bot's
  position and the logger's mirror set, but the position of the bot's trading client is
  still \<^verbatim>\<open>None\<close>, and the first scale-in, at a price of 108000, ends in
  \<^verbatim>\<open>AttributeError\<close> where the client reads its position.
\<close>

theorem recovery_leaves_client_without_position:
  "(case init_bot False []
           (Some \<lparr>amount = 0.01, entry_price_l = 109979.94, pnl = - 24.80,
                  leverage_l = Some 4\<rparr>) No_file ''2025-10-30T12:00:00'' of
      (Inr b, f) \<Rightarrow>
        position b \<noteq> None \<and> current_position (logger b) \<noteq> None
        \<and> position_c (trading_client b) = None
        \<and> fst (check_scale_in b 108000 neutral_sentiment (Order 0.003 108000))
            = Inl AttributeError
    | (Inl e, f) \<Rightarrow> False)"
  by (simp add: init_bot_def recover_position_def log_recovery_def run_simps)

text \<open>
  Claim C8: when the exchange reports a live position and there is no state file (or
  one that cannot be read), the recovered position takes the exchange's entry price as
  its average price and has a scale-in count of 0; when the state file holds a
  timestamp, a position with an average price and a scale-in count, the recovered
  position takes the average price and the scale-in count of the file, and the entry
  price, the size and the leverage of the exchange.
\<close>

theorem recovery_fallback_and_preference:
  "(file = No_file \<or> file = Unreadable_file \<longrightarrow>
      (\<exists>pos. fst (recover_position (Some live) file now_iso)
                = Inr (True, Some pos, Some (entry_price_l live))
             \<and> average_price pos = Some (entry_price_l live)
             \<and> scale_in_count_p pos = Some 0))
   \<and> (timestamp_s ss = Some t \<and> position_s ss = Some pd \<and> average_price pd = Some a
        \<and> scale_in_count_s ss = Some n \<longrightarrow>
      (\<exists>pos. fst (recover_position (Some live) (State_file ss) now_iso)
                = Inr (True, Some pos, last_entry_price_s ss)
             \<and> average_price pos = Some a \<and> scale_in_count_p pos = Some n
             \<and> entry_price pos = Some (entry_price_l live)
             \<and> size_p pos = Some (amount live)
             \<and> leverage pos = Some (get_or (leverage_l live) 3)))"
proof -
  have 1: "file = No_file \<or> file = Unreadable_file \<Longrightarrow>
      (\<exists>pos. fst (recover_position (Some live) file now_iso)
                = Inr (True, Some pos, Some (entry_price_l live))
             \<and> average_price pos = Some (entry_price_l live)
             \<and> scale_in_count_p pos = Some 0)"
    by (auto simp: recover_position_def Let_def empty_position_def)
  have 2: "(\<exists>pos. fst (recover_position (Some live) (State_file ss) now_iso)
                = Inr (True, Some pos, last_entry_price_s ss)
             \<and> average_price pos = Some a \<and> scale_in_count_p pos = Some n
             \<and> entry_price pos = Some (entry_price_l live)
             \<and> size_p pos = Some (amount live)
             \<and> leverage pos = Some (get_or (leverage_l live) 3))"
    if h: "timestamp_s ss = Some t" "position_s ss = Some pd" "average_price pd = Some a"
        "scale_in_count_s ss = Some n"
  proof -
    have ne: "ss \<noteq> empty_saved_state" using h(1) by (auto simp: empty_saved_state_def)
    have pne: "pd \<noteq> empty_position" using h(3) by (auto simp: empty_position_def)
    show ?thesis using ne pne h
      by (simp add: recover_position_def Let_def empty_position_def subscript_def get_or_def)
  qed
  show ?thesis using 1 2 by blast
qed

theorem recovery_fallback_and_preference_witness:
  "(\<exists>pos. fst (recover_position
                 (Some \<lparr>amount = 0.01, entry_price_l = 111091.20, pnl = - 24.80,
                        leverage_l = Some 4\<rparr>) No_file ''2025-10-30T12:00:00'')
            = Inr (True, Some pos, Some 111091.20)
         \<and> average_price pos = Some 111091.20 \<and> scale_in_count_p pos = Some 0)
   \<and> (\<exists>pos. fst (recover_position
                 (Some \<lparr>amount = 0.01, entry_price_l = 111091.20, pnl = - 24.80,
                        leverage_l = Some 4\<rparr>)
                 (State_file \<lparr>timestamp_s = Some ''2025-10-29T17:48:31'',
                    position_s = Some (empty_position\<lparr>average_price := Some 109979.94\<rparr>),
                    last_entry_price_s = Some 111091.20, total_position_size_s = Some 0.01,
                    current_leverage_s = Some 4, scale_in_count_s = Some 3\<rparr>)
                 ''2025-10-30T12:00:00'')
            = Inr (True, Some pos, Some 111091.20)
         \<and> average_price pos = Some 109979.94 \<and> scale_in_count_p pos = Some 3)"
  using recovery_fallback_and_preference
    [of No_file
        "\<lparr>amount = 0.01, entry_price_l = 111091.20, pnl = - 24.80, leverage_l = Some 4\<rparr>"
        "''2025-10-30T12:00:00''"
        "\<lparr>timestamp_s = Some ''2025-10-29T17:48:31'',
          position_s = Some (empty_position\<lparr>average_price := Some 109979.94\<rparr>),
          last_entry_price_s = Some 111091.20, total_position_size_s = Some 0.01,
          current_leverage_s = Some 4, scale_in_count_s = Some 3\<rparr>"
        "''2025-10-29T17:48:31''" "empty_position\<lparr>average_price := Some 109979.94\<rparr>"
        "109979.94" 3]
  by auto

end
